theory Spec2Isabelle
  imports Complex_Main
begin

section \<open>JavaScript string primitives\<close>

text \<open>
  Strings are lists of characters; a character stands for a UTF-16 code unit
  below 256. The functions below are the methods of \<^verbatim>\<open>String.prototype\<close>
  that the page renderer calls, with the argument shapes it calls them with.
\<close>

definition startsWith :: "string \<Rightarrow> string \<Rightarrow> bool" where
  "startsWith s p = (take (length p) s = p)"

definition endsWith :: "string \<Rightarrow> string \<Rightarrow> bool" where
  "endsWith s p = (length p \<le> length s \<and> drop (length s - length p) s = p)"

fun includes_str :: "string \<Rightarrow> string \<Rightarrow> bool" where
  "includes_str [] p = (p = [])"
| "includes_str (c # cs) p = (startsWith (c # cs) p \<or> includes_str cs p)"

text \<open>\<^verbatim>\<open>s.replace(p, r)\<close> with a string pattern: the first occurrence only.\<close>

fun replaceFirst :: "string \<Rightarrow> string \<Rightarrow> string \<Rightarrow> string" where
  "replaceFirst [] p r = (if p = [] then r else [])"
| "replaceFirst (c # cs) p r =
     (if startsWith (c # cs) p then r @ drop (length p) (c # cs)
      else c # replaceFirst cs p r)"

text \<open>\<^verbatim>\<open>s.split(d)\<close> with a one-character separator; the result is never empty.\<close>

fun split_chr :: "char \<Rightarrow> string \<Rightarrow> string list" where
  "split_chr d [] = [[]]"
| "split_chr d (c # cs) =
     (if c = d then [] # split_chr d cs
      else (case split_chr d cs of
              [] \<Rightarrow> [[c]]
            | p # ps \<Rightarrow> (c # p) # ps))"

text \<open>ASCII case folding, which is what the \<^verbatim>\<open>i\<close> flag does to an ASCII pattern.\<close>

definition lower :: "char \<Rightarrow> char" where
  "lower c = (case map_of (zip ''ABCDEFGHIJKLMNOPQRSTUVWXYZ'' ''abcdefghijklmnopqrstuvwxyz'') c of
                Some l \<Rightarrow> l
              | None \<Rightarrow> c)"

fun startsWithCI :: "string \<Rightarrow> string \<Rightarrow> bool" where
  "startsWithCI s [] = True"
| "startsWithCI [] (p # ps) = False"
| "startsWithCI (c # cs) (p # ps) = (if lower c = lower p then startsWithCI cs ps else False)"

text \<open>\<^verbatim>\<open>s.replace(/p/g, r)\<close> for a literal, non-empty pattern \<open>p\<close>.\<close>

fun replaceAll :: "string \<Rightarrow> string \<Rightarrow> string \<Rightarrow> string" where
  "replaceAll [] p r = []"
| "replaceAll (c # cs) p r =
     (if p \<noteq> [] \<and> startsWith (c # cs) p
      then r @ replaceAll (drop (length p - 1) cs) p r
      else c # replaceAll cs p r)"

text \<open>\<^verbatim>\<open>s.replace(/p/gi, r)\<close> for a literal, non-empty pattern \<open>p\<close>.\<close>

fun replaceAllCI :: "string \<Rightarrow> string \<Rightarrow> string \<Rightarrow> string" where
  "replaceAllCI [] p r = []"
| "replaceAllCI (c # cs) p r =
     (if p \<noteq> [] \<and> startsWithCI (c # cs) p
      then r @ replaceAllCI (drop (length p - 1) cs) p r
      else c # replaceAllCI cs p r)"

section \<open>Regular expressions\<close>

text \<open>
  The patterns with quantifiers, alternatives or groups are kept as syntax
  trees and matched the way the JavaScript engine does it: by backtracking,
  with the alternatives tried in order and the quantifiers greedy.
\<close>

definition isDigit :: "char \<Rightarrow> bool" where
  "isDigit c = (c \<in> set ''0123456789'')"

definition isLetter :: "char \<Rightarrow> bool" where
  \<comment> \<open>\<^verbatim>\<open>[a-z]\<close> under the \<^verbatim>\<open>i\<close> flag\<close>
  "isLetter c = (lower c \<in> set ''abcdefghijklmnopqrstuvwxyz'')"

definition isSpace :: "char \<Rightarrow> bool" where
  \<comment> \<open>the white space of \<^verbatim>\<open>\s\<close> and of \<^verbatim>\<open>trim\<close> among the code units below 256: space,
      tab, line feed, vertical tab, form feed, carriage return, no-break space\<close>
  "isSpace c = (c \<in> set [CHR '' '', CHR 0x09, CHR 0x0A, CHR 0x0B, CHR 0x0C, CHR 0x0D, CHR 0xA0])"

definition isWordChar :: "char \<Rightarrow> bool" where
  \<comment> \<open>\<^verbatim>\<open>\w\<close>\<close>
  "isWordChar c = (isLetter c \<or> isDigit c \<or> c = CHR ''_'')"

definition wordBoundary :: "char option \<Rightarrow> char option \<Rightarrow> bool" where
  \<comment> \<open>\<^verbatim>\<open>\b\<close> between the character before and the character after a position\<close>
  "wordBoundary prev nxt =
     ((case prev of None \<Rightarrow> False | Some c \<Rightarrow> isWordChar c)
        \<noteq> (case nxt of None \<Rightarrow> False | Some c \<Rightarrow> isWordChar c))"

definition charAt :: "string \<Rightarrow> nat \<Rightarrow> char option" where
  "charAt s i = (if i < length s then Some (s ! i) else None)"

datatype rx =
    Eps
  | Cls "char \<Rightarrow> bool"
  | Seq rx rx
  | Alt rx rx
  | Star rx
  | Grp nat rx
  | WordB
  | Eol

text \<open>
  A matcher state: the character before the current position, the text from
  the current position on, and the groups captured so far.
\<close>

record mstate =
  m_prev :: "char option"
  m_rest :: string
  m_caps :: "(nat \<times> string) list"

text \<open>
  \<open>matches r st\<close> lists the states in which a match of \<open>r\<close> that starts at \<open>st\<close>
  can end, in the order in which backtracking finds them. An iteration of
  \<open>Star\<close> that consumes nothing is rejected.
\<close>

function matches :: "rx \<Rightarrow> mstate \<Rightarrow> mstate list" where
  "matches Eps st = [st]"
| "matches (Cls P) st =
     (case m_rest st of
        [] \<Rightarrow> []
      | c # cs \<Rightarrow> if P c then [st\<lparr>m_prev := Some c, m_rest := cs\<rparr>] else [])"
| "matches (Seq a b) st = concat (map (matches b) (matches a st))"
| "matches (Alt a b) st = matches a st @ matches b st"
| "matches (Star a) st =
     concat (map (\<lambda>st'. if length (m_rest st') < length (m_rest st)
                          then matches (Star a) st' else [])
                 (matches a st)) @ [st]"
| "matches (Grp n a) st =
     map (\<lambda>st'. st'\<lparr>m_caps :=
                  (n, take (length (m_rest st) - length (m_rest st')) (m_rest st)) # m_caps st'\<rparr>)
         (matches a st)"
| "matches WordB st =
     (if wordBoundary (m_prev st) (case m_rest st of [] \<Rightarrow> None | c # _ \<Rightarrow> Some c)
      then [st] else [])"
| "matches Eol st = (if m_rest st = [] then [st] else [])"
  by pat_completeness auto
termination
  by (relation "inv_image (less_than <*lex*> less_than) (\<lambda>(r, st). (size r, length (m_rest st)))")
     auto

definition lit :: "string \<Rightarrow> rx" where
  "lit s = foldr (\<lambda>c r. Seq (Cls (\<lambda>x. x = c)) r) s Eps"

definition litCI :: "string \<Rightarrow> rx" where
  "litCI s = foldr (\<lambda>c r. Seq (Cls (\<lambda>x. lower x = lower c)) r) s Eps"

definition Plus :: "rx \<Rightarrow> rx" where
  "Plus r = Seq r (Star r)"

definition Opt :: "rx \<Rightarrow> rx" where
  "Opt r = Alt r Eps"

definition seqs :: "rx list \<Rightarrow> rx" where
  "seqs rs = foldr Seq rs Eps"

definition group :: "nat \<Rightarrow> (nat \<times> string) list \<Rightarrow> string" where
  \<comment> \<open>the text of a group; the empty string stands in for a group that took no part\<close>
  "group n caps = (case map_of caps n of None \<Rightarrow> [] | Some g \<Rightarrow> g)"

text \<open>The leftmost-first match at the current position: its length and its groups.\<close>

definition firstMatch :: "rx \<Rightarrow> char option \<Rightarrow> string \<Rightarrow> (nat \<times> (nat \<times> string) list) option" where
  "firstMatch r prev s =
     (case matches r \<lparr>m_prev = prev, m_rest = s, m_caps = []\<rparr> of
        [] \<Rightarrow> None
      | st # _ \<Rightarrow> Some (length s - length (m_rest st), m_caps st))"

text \<open>
  \<^verbatim>\<open>s.replace(/r/g, f)\<close>: every match, found from left to right, is replaced
  by what \<open>f\<close> makes of its text and groups; the search resumes behind the
  match, one character further on after an empty one.
\<close>

function replaceRx :: "rx \<Rightarrow> (string \<Rightarrow> (nat \<times> string) list \<Rightarrow> string) \<Rightarrow> char option \<Rightarrow> string \<Rightarrow> string" where
  "replaceRx r f prev s =
     (case firstMatch r prev s of
        Some (n, caps) \<Rightarrow>
          if n = 0 then
            f [] caps @ (case s of [] \<Rightarrow> [] | c # cs \<Rightarrow> c # replaceRx r f (Some c) cs)
          else
            f (take n s) caps @ (if s = [] then [] else replaceRx r f (charAt s (n - 1)) (drop n s))
      | None \<Rightarrow> (case s of [] \<Rightarrow> [] | c # cs \<Rightarrow> c # replaceRx r f (Some c) cs))"
  by pat_completeness auto
termination
  by (relation "measure (\<lambda>(r, f, prev, s). length s)") auto

text \<open>\<^verbatim>\<open>s.replace(/r/, f)\<close> without the \<^verbatim>\<open>g\<close> flag: the leftmost match only.\<close>

fun replaceFirstRx :: "rx \<Rightarrow> (string \<Rightarrow> (nat \<times> string) list \<Rightarrow> string) \<Rightarrow> char option \<Rightarrow> string \<Rightarrow> string" where
  "replaceFirstRx r f prev [] =
     (case firstMatch r prev [] of Some (n, caps) \<Rightarrow> f [] caps | None \<Rightarrow> [])"
| "replaceFirstRx r f prev (c # cs) =
     (case firstMatch r prev (c # cs) of
        Some (n, caps) \<Rightarrow> f (take n (c # cs)) caps @ drop n (c # cs)
      | None \<Rightarrow> c # replaceFirstRx r f (Some c) cs)"

text \<open>\<^verbatim>\<open>/r/.test(s)\<close> and \<^verbatim>\<open>s.match(/r/)\<close> as a truth value.\<close>

fun testRx :: "rx \<Rightarrow> char option \<Rightarrow> string \<Rightarrow> bool" where
  "testRx r prev [] = (firstMatch r prev [] \<noteq> None)"
| "testRx r prev (c # cs) = (if firstMatch r prev (c # cs) \<noteq> None then True else testRx r (Some c) cs)"

section \<open>The platform's URL constructor\<close>

text \<open>
  \<^verbatim>\<open>new URL(input, base)\<close> belongs to the browser, not to this repository. The
  renderer reads two fields of the object it returns. The constructor is a
  parameter of every function that calls it: it is given the input and the
  optional base, and \<open>None\<close> stands for the \<^verbatim>\<open>TypeError\<close> it throws.
\<close>

record url =
  hostname :: string
  pathname :: string

type_synonym url_ctor = "string \<Rightarrow> string option \<Rightarrow> url option"

section \<open>getAssetFilename\<close>

definition slashesToUnderscores :: "string \<Rightarrow> string" where
  \<comment> \<open>\<^verbatim>\<open>fullPath.replace(/\//g, '_')\<close>\<close>
  "slashesToUnderscores s = map (\<lambda>c. if c = CHR ''/'' then CHR ''_'' else c) s"

definition beforeQuery :: "string \<Rightarrow> string" where
  \<comment> \<open>\<^verbatim>\<open>filename.split('?')[0]\<close>\<close>
  "beforeQuery s = hd (split_chr CHR ''?'' s)"

definition orNull :: "string \<Rightarrow> string option" where
  \<comment> \<open>\<^verbatim>\<open>filename || null\<close>\<close>
  "orNull s = (if s = [] then None else Some s)"

text \<open>The three return paths of the function, in source order.\<close>

definition litespeedBranch :: "url \<Rightarrow> string option" where
  "litespeedBranch urlObj =
     (let domain = replaceFirst (hostname urlObj) ''www.'' [];
          fullPath = domain @ pathname urlObj;
          filename = slashesToUnderscores fullPath;
          filename = beforeQuery filename
      in orNull filename)"

definition uploadsBranch :: "url \<Rightarrow> string option" where
  "uploadsBranch urlObj =
     (let domain = replaceFirst (hostname urlObj) ''www.'' [];
          fullPath = domain @ pathname urlObj;
          filename = slashesToUnderscores fullPath;
          filename = beforeQuery filename
      in orNull filename)"

definition otherBranch :: "url \<Rightarrow> string option" where
  "otherBranch urlObj =
     (let domain = replaceFirst (hostname urlObj) ''www.'' [];
          fullPath = domain @ pathname urlObj;
          filename = slashesToUnderscores fullPath;
          filename = beforeQuery filename
      in orNull filename)"

definition assetBase :: string where
  "assetBase = ''https://alluredigital.net''"

definition getAssetFilename :: "url_ctor \<Rightarrow> string \<Rightarrow> string option" where
  "getAssetFilename U u =
     (case U u (Some assetBase) of
        None \<Rightarrow> None
      | Some urlObj \<Rightarrow>
          (let pathParts = filter (\<lambda>p. p \<noteq> []) (split_chr CHR ''/'' (pathname urlObj)) in
           if length pathParts = 0 then None
           else if includes_str (pathname urlObj) ''/litespeed/'' then litespeedBranch urlObj
           else if includes_str (pathname urlObj) ''/wp-content/uploads/'' then uploadsBranch urlObj
           else otherBranch urlObj))"

text \<open>
  The rule as the specification words it: a leading \<^verbatim>\<open>www.\<close> is removed from
  the host name, the path name is appended, slashes become underscores and a
  query suffix is cut off.
\<close>

definition removeLeadingWww :: "string \<Rightarrow> string" where
  "removeLeadingWww h = (if startsWith h ''www.'' then drop 4 h else h)"

definition claimedFilename :: "url \<Rightarrow> string" where
  "claimedFilename urlObj =
     beforeQuery (slashesToUnderscores (removeLeadingWww (hostname urlObj) @ pathname urlObj))"

text \<open>The single rule that the code follows: the first \<^verbatim>\<open>www.\<close> of the host name goes, wherever it stands.\<close>

definition singleRule :: "url_ctor \<Rightarrow> string \<Rightarrow> string option" where
  "singleRule U u =
     (case U u (Some assetBase) of
        None \<Rightarrow> None
      | Some urlObj \<Rightarrow>
          if list_all (\<lambda>c. c = CHR ''/'') (pathname urlObj) then None
          else orNull (beforeQuery (slashesToUnderscores
                 (replaceFirst (hostname urlObj) ''www.'' [] @ pathname urlObj))))"

text \<open>
  The constructor's results at the inputs of the examples in this theory, as
  the URL Standard gives them. The inputs used below that are not in the
  table are ones the constructor throws on: \<^verbatim>\<open>http://\<close>, which has no host,
  and text without a scheme where no base is given.
\<close>

definition sampleURL :: url_ctor where
  "sampleURL u base =
     (if base = Some assetBase then
        map_of
          [(''https://cdn.www.example.com/a.css'',
              \<lparr>hostname = ''cdn.www.example.com'', pathname = ''/a.css''\<rparr>),
           (''https://static.www.example.com/wp-content/uploads/logo.png'',
              \<lparr>hostname = ''static.www.example.com'', pathname = ''/wp-content/uploads/logo.png''\<rparr>),
           (''https://www.alluredigital.net/wp-content/litespeed/css/ab12.css?ver=6'',
              \<lparr>hostname = ''www.alluredigital.net'', pathname = ''/wp-content/litespeed/css/ab12.css''\<rparr>),
           (''https://alluredigital.net/wp-content/uploads/2022/12/about-banner-300x200.png'',
              \<lparr>hostname = ''alluredigital.net'', pathname = ''/wp-content/uploads/2022/12/about-banner-300x200.png''\<rparr>),
           (''https://alluredigital.net/a.png&quot;,&quot;v&quot;:&quot;x/y&quot;'',
              \<lparr>hostname = ''alluredigital.net'', pathname = ''/a.png&quot;,&quot;v&quot;:&quot;x/y&quot;''\<rparr>),
           (''https://alluredigital.net/wp-includes/js/jquery/jquery.min.js'',
              \<lparr>hostname = ''alluredigital.net'', pathname = ''/wp-includes/js/jquery/jquery.min.js''\<rparr>),
           (''https://alluredigital.net/'',
              \<lparr>hostname = ''alluredigital.net'', pathname = ''/''\<rparr>)] u
      else if base = None then
        map_of
          [(''https://alluredigital.net/contact-us/?ref=nav#top'',
              \<lparr>hostname = ''alluredigital.net'', pathname = ''/contact-us/''\<rparr>),
           (''mailto:info@alluredigital.net'',
              \<lparr>hostname = [], pathname = ''info@alluredigital.net''\<rparr>)] u
      else None)"

section \<open>fixAssetUrl\<close>

definition sizeSuffixRx :: rx where
  \<comment> \<open>\<^verbatim>\<open>/-\d+x\d+(\.[a-z]+)$/i\<close>\<close>
  "sizeSuffixRx =
     seqs [lit ''-'', Plus (Cls isDigit), litCI ''x'', Plus (Cls isDigit),
           Grp 1 (Seq (lit ''.'') (Plus (Cls isLetter))), Eol]"

definition stripSizeSuffix :: "string \<Rightarrow> string" where
  \<comment> \<open>\<^verbatim>\<open>filename.replace(/-\d+x\d+(\.[a-z]+)$/i, '$1')\<close>\<close>
  "stripSizeSuffix filename = replaceFirstRx sizeSuffixRx (\<lambda>m caps. group 1 caps) None filename"

definition fixAssetUrl :: "url_ctor \<Rightarrow> string \<Rightarrow> string" where
  "fixAssetUrl U u =
     (if u = [] \<or> startsWith u ''data:'' \<or> startsWith u ''/assets/'' then u
      else
        (case (if includes_str u ''alluredigital.net'' \<or> startsWith u ''http''
               then getAssetFilename U u else None) of
           Some filename \<Rightarrow> ''/assets/'' @ stripSizeSuffix filename
         | None \<Rightarrow>
             (case (if includes_str u ''rimalweb.net'' \<or> includes_str u ''Rimalweb.net''
                    then getAssetFilename U (replaceAllCI u ''rimalweb.net'' ''alluredigital.net'')
                    else None) of
                Some filename \<Rightarrow> ''/assets/'' @ stripSizeSuffix filename
              | None \<Rightarrow> u)))"

section \<open>Anchors: contact links and internal links\<close>

text \<open>
  The loop over \<^verbatim>\<open>a[href]\<close> reads and writes two attributes of each anchor.
  An attribute that is absent is \<open>None\<close>.
\<close>

datatype href = NoHref | Href string | HrefOfInherited string
  \<comment> \<open>\<open>HrefOfInherited k\<close>: the attribute was set to the string conversion of the
      property \<open>k\<close> of \<^verbatim>\<open>Object.prototype\<close>, a function or an object\<close>

record anchor =
  a_href :: href
  a_style :: "string option"

definition trim :: "string \<Rightarrow> string" where
  "trim s = rev (dropWhile isSpace (rev (dropWhile isSpace s)))"

definition trimTrailingSlash :: "string \<Rightarrow> string" where
  \<comment> \<open>\<^verbatim>\<open>if (path.endsWith('/') && path !== '/') path = path.slice(0, -1)\<close>\<close>
  "trimTrailingSlash path = (if endsWith path ''/'' \<and> path \<noteq> ''/'' then butlast path else path)"

definition routeMap :: "(string \<times> string) list" where
  "routeMap =
     [(''/social-media-management'', ''/social-media-management''),
      (''/local-seo'', ''/local-seo''),
      (''/ppc-advertising'', ''/ppc-advertising''),
      (''/wordpress-development'', ''/wordpress-development''),
      (''/contact-us'', ''/contact-us''),
      (''/who-we-are'', ''/who-we-are''),
      (''/portfolio'', ''/portfolio''),
      (''/work'', ''/work''),
      (''/blog'', ''/blog''),
      (''/careers'', ''/careers'')]"

text \<open>
  \<^verbatim>\<open>routeMap\<close> is an object literal, so \<^verbatim>\<open>routeMap[path]\<close> also finds what
  \<^verbatim>\<open>Object.prototype\<close> provides under these names; each of them is a function or
  an object, hence truthy.
\<close>

definition objectPrototypeKeys :: "string list" where
  "objectPrototypeKeys =
     [''constructor'', ''toString'', ''toLocaleString'', ''valueOf'', ''hasOwnProperty'',
      ''isPrototypeOf'', ''propertyIsEnumerable'', ''__proto__'', ''__defineGetter__'',
      ''__defineSetter__'', ''__lookupGetter__'', ''__lookupSetter__'']"

datatype property = Undefined | Own string | Inherited string

definition routeMap_get :: "string \<Rightarrow> property" where
  "routeMap_get path =
     (case map_of routeMap path of
        Some route \<Rightarrow> Own route
      | None \<Rightarrow> if path \<in> set objectPrototypeKeys then Inherited path else Undefined)"

text \<open>The text after the first occurrence of \<open>p\<close> in \<open>s\<close>, if there is one.\<close>

fun afterFirst :: "string \<Rightarrow> string \<Rightarrow> string option" where
  "afterFirst [] p = (if p = [] then Some [] else None)"
| "afterFirst (c # cs) p =
     (if startsWith (c # cs) p then Some (drop (length p) (c # cs)) else afterFirst cs p)"

definition pathMatch :: "string \<Rightarrow> string option" where
  \<comment> \<open>group 1 of \<^verbatim>\<open>href.match(/alluredigital\.net([^?#]*)/)\<close>\<close>
  "pathMatch h =
     map_option (takeWhile (\<lambda>c. c \<noteq> CHR ''?'' \<and> c \<noteq> CHR ''#''))
       (afterFirst h ''alluredigital.net'')"

definition fixAnchor :: "url_ctor \<Rightarrow> anchor \<Rightarrow> anchor" where
  "fixAnchor U a =
     (case a_href a of
        Href h \<Rightarrow>
          if h \<noteq> [] \<and> (startsWith h ''tel:'' \<or> startsWith h ''mailto:'') then
            (let currentStyle = (case a_style a of None \<Rightarrow> [] | Some st \<Rightarrow> st) in
             a\<lparr>a_href := NoHref,
               a_style := Some (trim (currentStyle @ '' pointer-events: none; cursor: default;''))\<rparr>)
          else if h \<noteq> [] \<and> includes_str h ''alluredigital.net'' then
            (case U h None of
               Some urlObj \<Rightarrow>
                 (let path = trimTrailingSlash (pathname urlObj) in
                  case routeMap_get path of
                    Inherited k \<Rightarrow> a\<lparr>a_href := HrefOfInherited k\<rparr>
                  | lookup \<Rightarrow>
                      if (case lookup of Own route \<Rightarrow> route \<noteq> [] | _ \<Rightarrow> False) then
                        a\<lparr>a_href := Href (case lookup of Own route \<Rightarrow> route | _ \<Rightarrow> [])\<rparr>
                      else if startsWith path ''/blog/'' then a\<lparr>a_href := Href path\<rparr>
                      else if path = ''/'' \<or> path = [] then a\<lparr>a_href := Href ''/''\<rparr>
                      else a\<lparr>a_href := Href path\<rparr>)
             | None \<Rightarrow>
                 (case pathMatch h of
                    Some g \<Rightarrow>
                      if g \<noteq> [] then
                        (let path = trimTrailingSlash g in
                         a\<lparr>a_href := Href (if path \<noteq> [] then path else ''/'')\<rparr>)
                      else a
                  | None \<Rightarrow> a))
          else a
      | _ \<Rightarrow> a)"

text \<open>
  What the specification says of an anchor whose \<^verbatim>\<open>href\<close> parses: the path
  name without its trailing slash, and \<^verbatim>\<open>/\<close> for an empty path name.
\<close>

definition claimedHref :: "url \<Rightarrow> href" where
  "claimedHref urlObj =
     Href (if pathname urlObj = [] then ''/'' else trimTrailingSlash (pathname urlObj))"

section \<open>Route handlers\<close>

text \<open>
  Each route is a function component that reads one page of the scraped
  corpus and returns a \<^verbatim>\<open>PageRenderer\<close> element. \<open>readPage name\<close> stands for
  \<^verbatim>\<open>readFileSync(join(process.cwd(), 'allure_out', 'pages', name), 'utf-8')\<close>,
  with \<open>None\<close> when it throws; a handler that lets the exception escape returns
  \<open>None\<close> in turn.
\<close>

datatype element = PageRendererEl string | ErrorDiv

type_synonym handler = "(string \<Rightarrow> string option) \<Rightarrow> element option"

text \<open>
  \<^verbatim>\<open>s.replace(/\bp\b/gi, r)\<close> for a literal, non-empty \<open>p\<close>; \<open>prev\<close> is the
  character that precedes \<open>s\<close> in the text being scanned.
\<close>

fun replaceAllWordCI :: "char option \<Rightarrow> string \<Rightarrow> string \<Rightarrow> string \<Rightarrow> string" where
  "replaceAllWordCI prev [] p r = []"
| "replaceAllWordCI prev (c # cs) p r =
     (if p \<noteq> [] \<and> wordBoundary prev (Some c) \<and> startsWithCI (c # cs) p
         \<and> wordBoundary (charAt (c # cs) (length p - 1)) (charAt (c # cs) (length p))
      then r @ replaceAllWordCI (charAt (c # cs) (length p - 1)) (drop (length p - 1) cs) p r
      else c # replaceAllWordCI (Some c) cs p r)"

definition replaceEach :: "(string \<times> string) list \<Rightarrow> string \<Rightarrow> string" where
  \<comment> \<open>a chain \<^verbatim>\<open>.replace(/p1/gi, r1).replace(/p2/gi, r2)...\<close> of literal patterns\<close>
  "replaceEach steps html = foldl (\<lambda>h (p, r). replaceAllCI h p r) html steps"

definition googleAdsSteps :: "(string \<times> string) list" where
  \<open>googleAdsSteps =
     [
      (''https://alluredigital.net/ppc-advertising/'',
         ''https://alluredigital.net/google-ads-management/''),
      (''alluredigital.net/ppc-advertising'',
         ''alluredigital.net/google-ads-management''),
      (''/ppc-advertising/'',
         ''/google-ads-management/''),
      (''ppc-advertising'',
         ''google-ads-management''),
      (''href="https://alluredigital.net/ppc-advertising'',
         ''href="https://alluredigital.net/google-ads-management''),
      (''href="/ppc-advertising'',
         ''href="/google-ads-management''),
      (''url=https%3A%2F%2Falluredigital.net%2Fppc-advertising'',
         ''url=https%3A%2F%2Falluredigital.net%2Fgoogle-ads-management''),
      (''PPC specialists use high-end expertise to design, execute and build digital advertising campaigns'',
         ''Google Ads specialists use high-end expertise to design, execute and optimize Google advertising campaigns''),
      (''A Result Driven PPC Advertising Company'',
         ''Expert Google Ads Management Services''),
      (''Hire PPC managers to launch the result-driven PPC advertising campaigns'',
         ''Hire Google Ads managers to launch result-driven Google Ads campaigns''),
      (''Gain Instant Results With Powerful PPC Campaigns'',
         ''Gain Instant Results With Powerful Google Ads Campaigns''),
      (''Need maximum clicks on your paid advertisements at the best price? Gain instant results with our powerful PPC paid search campaigns'',
         ''Need maximum clicks on your paid advertisements at the best price? Gain instant results with our powerful Google Ads campaigns''),
      (''If you don\'t invest your budget in PPC marketing'',
         ''If you don\'t invest your budget in Google Ads marketing''),
      (''hire our professional PPC specialists'',
         ''hire our professional Google Ads specialists''),
      (''PPC Advertising '',
         ''Google Ads Management ''),
      (''PPC Advertising'',
         ''Google Ads Management''),
      (''PPC paid search campaigns'',
         ''Google Ads campaigns''),
      (''PPC Campaigns'',
         ''Google Ads Campaigns''),
      (''PPC specialists'',
         ''Google Ads specialists''),
      (''PPC managers'',
         ''Google Ads managers''),
      (''PPC marketing'',
         ''Google Ads marketing''),
      (''Pay Per Click Advertising'',
         ''Google Ads Management''),
      (''pay per click advertising'',
         ''Google Ads Management''),
      (''pay-per-click'',
         ''Google Ads''),
      (''Pay Per Click'',
         ''Google Ads''),
      (''pay per click'',
         ''Google Ads'')]\<close>

definition googleAdsContent :: "string \<Rightarrow> string" where
  "googleAdsContent html = replaceAllWordCI None (replaceEach googleAdsSteps html) ''PPC'' ''Google Ads''"

definition shopifySteps :: "(string \<times> string) list" where
  \<open>shopifySteps =
     [
      (''Bricks Builder Development'',
         ''Shopify Development''),
      (''Bricks Builder'',
         ''Shopify''),
      (''Bricks Builder Development Services - Fast, Custom Websites'',
         ''Shopify Development Services - Custom E-commerce Solutions''),
      (''Bricks Builder Development for websites that look great, perform better, and scale with your business'',
         ''Shopify Development for e-commerce stores that look great, perform better, and scale with your business''),
      (''Built with Bricks Builder: clean, fast, and future-ready'',
         ''Built with Shopify: clean, fast, and future-ready''),
      (''Build My WordPress Site with Bricks'',
         ''Build My Shopify Store''),
      (''We are an innovative Brooklyn WordPress Web Development Company specializing in design, development, support &amp; maintenance of WordPress websites'',
         ''We are an innovative e-commerce development company specializing in design, development, support & maintenance of Shopify stores''),
      (''Bricks Builder Development | Web Development Agency'',
         ''Shopify Development | E-commerce Development Agency'')]\<close>

definition shopifyContent :: "string \<Rightarrow> string" where
  "shopifyContent html = replaceEach shopifySteps html"

definition passThrough :: "string \<Rightarrow> handler" where
  \<comment> \<open>the body shared by the handlers that only read and render\<close>
  "passThrough name readPage = map_option PageRendererEl (readPage name)"

definition Home :: handler where "Home = passThrough ''page_0004.html''"
definition BlogPost_0028 :: handler where
  "BlogPost_0028 readPage =
     (case readPage ''page_0028.html'' of
        Some htmlContent \<Rightarrow> Some (PageRendererEl htmlContent)
      | None \<Rightarrow> Some ErrorDiv)"
definition BlogPost_0029 :: handler where "BlogPost_0029 = passThrough ''page_0029.html''"
definition BlogPost_0031 :: handler where "BlogPost_0031 = passThrough ''page_0031.html''"
definition TechnicalSEO :: handler where "TechnicalSEO = passThrough ''page_0010.html''"
definition ShopifyDevelopment_plain :: handler where "ShopifyDevelopment_plain = passThrough ''page_0015.html''"
definition SocialMediaManagement_0016 :: handler where "SocialMediaManagement_0016 = passThrough ''page_0016.html''"
definition SocialMediaManagement_0002 :: handler where "SocialMediaManagement_0002 = passThrough ''page_0002.html''"
definition WorkCase_0046 :: handler where "WorkCase_0046 = passThrough ''page_0046.html''"
definition WorkCase_0045 :: handler where "WorkCase_0045 = passThrough ''page_0045.html''"
definition ContactUs :: handler where "ContactUs = passThrough ''page_0002.html''"
definition Careers :: handler where "Careers = passThrough ''page_0025.html''"
definition CRMDevelopment :: handler where "CRMDevelopment = passThrough ''page_0017.html''"
definition AppianDevelopment :: handler where "AppianDevelopment = passThrough ''page_0004.html''"
definition LocalSEO :: handler where "LocalSEO = passThrough ''page_0005.html''"
definition WordPressDevelopment :: handler where "WordPressDevelopment = passThrough ''page_0013.html''"
definition Blog :: handler where "Blog = passThrough ''page_0020.html''"

definition GoogleAdsManagement :: handler where
  "GoogleAdsManagement readPage =
     (case readPage ''page_0011.html'' of
        Some htmlContent \<Rightarrow> Some (PageRendererEl (googleAdsContent htmlContent))
      | None \<Rightarrow> None)"

definition ShopifyDevelopment :: handler where
  "ShopifyDevelopment readPage =
     (case readPage ''page_0015.html'' of
        Some htmlContent \<Rightarrow> Some (PageRendererEl (shopifyContent htmlContent))
      | None \<Rightarrow> None)"

text \<open>The handlers that pass the file on as it is, each with the page it reads.\<close>

definition plainRoutes :: "(handler \<times> string) list" where
  "plainRoutes =
     [(Home, ''page_0004.html''), (BlogPost_0028, ''page_0028.html''),
      (BlogPost_0029, ''page_0029.html''), (BlogPost_0031, ''page_0031.html''),
      (TechnicalSEO, ''page_0010.html''), (ShopifyDevelopment_plain, ''page_0015.html''),
      (SocialMediaManagement_0016, ''page_0016.html''),
      (SocialMediaManagement_0002, ''page_0002.html''),
      (WorkCase_0046, ''page_0046.html''), (WorkCase_0045, ''page_0045.html''),
      (ContactUs, ''page_0002.html''), (Careers, ''page_0025.html''),
      (CRMDevelopment, ''page_0017.html''), (AppianDevelopment, ''page_0004.html''),
      (LocalSEO, ''page_0005.html''), (WordPressDevelopment, ''page_0013.html''),
      (Blog, ''page_0020.html'')]"

definition samplePages :: "string \<Rightarrow> string option" where
  \<open>samplePages = map_of
     [(''page_0011.html'', ''<b>PPC</b>''),
      (''page_0004.html'', ''<h1>Allure Digital</h1>'')]\<close>

section \<open>The document tree\<close>

text \<open>
  The nodes the renderer walks: text, comments and elements with their tag
  name (as \<^verbatim>\<open>tagName\<close> reports it), attributes and children. Parsing markup
  into nodes (an assignment to \<^verbatim>\<open>innerHTML\<close>) and serialising them (a read of
  \<^verbatim>\<open>innerHTML\<close>) belong to the browser and are parameters.
\<close>

datatype node =
    Text string
  | Comment string
  | Element string "(string \<times> string) list" "node list"

type_synonym html_parser = "string \<Rightarrow> node list"
type_synonym html_serializer = "node list \<Rightarrow> string"

fun textContent :: "node \<Rightarrow> string" where
  "textContent (Text t) = t"
| "textContent (Comment c) = []"
| "textContent (Element tag attrs kids) = concat (map textContent kids)"

definition setTextContent :: "string \<Rightarrow> node list" where
  \<comment> \<open>the children after \<^verbatim>\<open>el.textContent = t\<close>\<close>
  "setTextContent t = (if t = [] then [] else [Text t])"

type_synonym attr_list = "(string \<times> string) list"

definition getAttribute :: "attr_list \<Rightarrow> string \<Rightarrow> string option" where
  "getAttribute as k = map_of as k"

definition hasAttribute :: "attr_list \<Rightarrow> string \<Rightarrow> bool" where
  "hasAttribute as k = (map_of as k \<noteq> None)"

fun setAttribute :: "attr_list \<Rightarrow> string \<Rightarrow> string \<Rightarrow> attr_list" where
  "setAttribute [] k v = [(k, v)]"
| "setAttribute ((k', v') # as) k v =
     (if k' = k then (k, v) # as else (k', v') # setAttribute as k v)"

definition localName :: "string \<Rightarrow> string" where
  \<comment> \<open>what a type selector compares with: the tag name in lower case\<close>
  "localName tag = map lower tag"

text \<open>
  An element seen from a text node or from one of its descendants: tag name and
  attributes. A chain lists an element and its ancestors, the nearest first. The root of a
  fragment is the detached \<^verbatim>\<open>div\<close> that \<^verbatim>\<open>createElement('div')\<close> returns.
\<close>

type_synonym ancestry = "(string \<times> attr_list) list"

definition tempDiv :: ancestry where
  "tempDiv = [(''DIV'', [])]"

definition closest :: "((string \<times> attr_list) \<Rightarrow> bool) \<Rightarrow> ancestry \<Rightarrow> bool" where
  \<comment> \<open>\<^verbatim>\<open>el.closest(sel) !== null\<close>, for the chain that starts with \<open>el\<close> itself\<close>
  "closest sel chain = list_ex sel chain"

definition isImg :: "(string \<times> attr_list) \<Rightarrow> bool" where
  \<comment> \<open>\<^verbatim>\<open>img\<close>\<close>
  "isImg e = (localName (fst e) = ''img'')"

definition isLinkWithHref :: "(string \<times> attr_list) \<Rightarrow> bool" where
  \<comment> \<open>\<^verbatim>\<open>a[href]\<close>\<close>
  "isLinkWithHref e = (localName (fst e) = ''a'' \<and> hasAttribute (snd e) ''href'')"

fun includesCI :: "string \<Rightarrow> string \<Rightarrow> bool" where
  "includesCI [] p = (p = [])"
| "includesCI (c # cs) p = (if startsWithCI (c # cs) p then True else includesCI cs p)"

section \<open>replaceBranding\<close>

definition brandWords :: "string \<Rightarrow> string" where
  \<comment> \<open>the three replacements with \<^verbatim>\<open>\b\<close> on both sides, in source order\<close>
  "brandWords text =
     (let text = replaceAllWordCI None text ''Allure Digital'' ''Rimalweb'';
          text = replaceAllWordCI None text ''AllureDigital'' ''Rimalweb'';
          text = replaceAllWordCI None text ''allure digital'' ''Rimalweb''
      in text)"

definition brandPlain :: "string \<Rightarrow> string" where
  \<comment> \<open>the two replacements without \<^verbatim>\<open>\b\<close>, as for titles, \<^verbatim>\<open>alt\<close> and data attributes\<close>
  "brandPlain text =
     replaceAllCI (replaceAllCI text ''Allure Digital'' ''Rimalweb'') ''AllureDigital'' ''Rimalweb''"

definition looksLikeUrl :: "string \<Rightarrow> bool" where
  \<comment> \<open>\<^verbatim>\<open>/https?:\/\//i\<close>, \<^verbatim>\<open>/\/assets\//\<close>, \<^verbatim>\<open>/\.(png|jpg|jpeg|gif|svg|css|js)/i\<close>, \<^verbatim>\<open>/^\/[^\/]/\<close>\<close>
  "looksLikeUrl text =
     (includesCI text ''http://'' \<or> includesCI text ''https://''
      \<or> includes_str text ''/assets/''
      \<or> list_ex (includesCI text) [''.png'', ''.jpg'', ''.jpeg'', ''.gif'', ''.svg'', ''.css'', ''.js'']
      \<or> (case text of c # d # _ \<Rightarrow> c = CHR ''/'' \<and> d \<noteq> CHR ''/'' | _ \<Rightarrow> False))"

text \<open>The tests on the parent of a text node after which the walk says \<^verbatim>\<open>continue\<close>.\<close>

definition skipsParent :: "ancestry \<Rightarrow> bool" where
  "skipsParent chain =
     (case chain of
        [] \<Rightarrow> True
      | (tag, as) # _ \<Rightarrow>
          tag = ''SCRIPT'' \<or> tag = ''STYLE'' \<or> tag = ''NOSCRIPT''
          \<or> (hasAttribute as ''src'' \<and> tag \<noteq> ''A'')
          \<or> (closest isImg chain \<and> \<not> closest isLinkWithHref chain)
          \<or> (hasAttribute as ''href'' \<and> tag \<noteq> ''A''))"

definition brandTextNode :: "ancestry \<Rightarrow> string \<Rightarrow> string" where
  "brandTextNode chain text =
     (if skipsParent chain then text
      else if text \<noteq> [] \<and> \<not> looksLikeUrl text then brandWords text
      else text)"

text \<open>The walk over the text nodes; \<open>chain\<close> starts with the parent of the node.\<close>

fun walkText :: "ancestry \<Rightarrow> node \<Rightarrow> node" where
  "walkText chain (Text t) = Text (brandTextNode chain t)"
| "walkText chain (Comment c) = Comment c"
| "walkText chain (Element tag as kids) = Element tag as (map (walkText ((tag, as) # chain)) kids)"

text \<open>
  The loops over \<^verbatim>\<open>querySelectorAll\<close> results visit the elements in document
  order. An element whose \<^verbatim>\<open>textContent\<close> is assigned loses its descendants, and
  what the loop does to them afterwards no longer shows; so each loop is a
  recursion that stops where it assigns.
\<close>

fun brandTitles :: "node \<Rightarrow> node" where
  "brandTitles (Element tag as kids) =
     (if localName tag = ''title'' \<and> textContent (Element tag as kids) \<noteq> []
      then Element tag as (setTextContent (brandPlain (textContent (Element tag as kids))))
      else Element tag as (map brandTitles kids))"
| "brandTitles n = n"

definition mentionsAllure :: "string \<Rightarrow> bool" where
  "mentionsAllure v = (includes_str v ''Allure'' \<or> includes_str v ''allure'')"

definition brandAttribute :: "string \<Rightarrow> attr_list \<Rightarrow> attr_list" where
  "brandAttribute k as =
     (case getAttribute as k of
        Some v \<Rightarrow> if v \<noteq> [] \<and> mentionsAllure v then setAttribute as k (brandPlain v) else as
      | None \<Rightarrow> as)"

fun brandAlts :: "node \<Rightarrow> node" where
  "brandAlts (Element tag as kids) =
     Element tag (if localName tag = ''img'' then brandAttribute ''alt'' as else as)
       (map brandAlts kids)"
| "brandAlts n = n"

fun splitWhen :: "(char \<Rightarrow> bool) \<Rightarrow> string \<Rightarrow> string list" where
  "splitWhen sep [] = [[]]"
| "splitWhen sep (c # cs) =
     (if sep c then [] # splitWhen sep cs
      else (case splitWhen sep cs of
              [] \<Rightarrow> [[c]]
            | t # ts \<Rightarrow> (c # t) # ts))"

definition classTokens :: "attr_list \<Rightarrow> string list" where
  \<comment> \<open>the class names: the attribute split at ASCII white space\<close>
  "classTokens as =
     (case getAttribute as ''class'' of
        None \<Rightarrow> []
      | Some v \<Rightarrow>
          filter (\<lambda>t. t \<noteq> [])
            (splitWhen (\<lambda>c. c \<in> set [CHR '' '', CHR 0x09, CHR 0x0A, CHR 0x0C, CHR 0x0D]) v))"

definition isHeading :: "(string \<times> attr_list) \<Rightarrow> bool" where
  \<comment> \<open>\<^verbatim>\<open>h1, h2, h3, h4, h5, h6, .elementor-heading-title, .bdt-ep-hover-box-title, [class*="heading"]\<close>\<close>
  "isHeading e =
     (localName (fst e) \<in> set [''h1'', ''h2'', ''h3'', ''h4'', ''h5'', ''h6'']
      \<or> ''elementor-heading-title'' \<in> set (classTokens (snd e))
      \<or> ''bdt-ep-hover-box-title'' \<in> set (classTokens (snd e))
      \<or> (case getAttribute (snd e) ''class'' of None \<Rightarrow> False | Some v \<Rightarrow> includes_str v ''heading''))"

fun brandHeadings :: "node \<Rightarrow> node" where
  "brandHeadings (Element tag as kids) =
     (if isHeading (tag, as) \<and> textContent (Element tag as kids) \<noteq> []
         \<and> brandWords (textContent (Element tag as kids)) \<noteq> textContent (Element tag as kids)
      then Element tag as (setTextContent (brandWords (textContent (Element tag as kids))))
      else Element tag as (map brandHeadings kids))"
| "brandHeadings n = n"

definition isBlock :: "(string \<times> attr_list) \<Rightarrow> bool" where
  \<comment> \<open>\<^verbatim>\<open>span, div, p, li\<close>\<close>
  "isBlock e = (localName (fst e) \<in> set [''span'', ''div'', ''p'', ''li''])"

definition isElement :: "node \<Rightarrow> bool" where
  "isElement n = (case n of Element _ _ _ \<Rightarrow> True | _ \<Rightarrow> False)"

definition brandDirectText :: "node \<Rightarrow> node" where
  \<comment> \<open>what the inner loop does to one child: a text node is rewritten, anything else is kept\<close>
  "brandDirectText n =
     (case n of
        Text t \<Rightarrow> if t \<noteq> [] \<and> brandWords t \<noteq> t then Text (brandWords t) else Text t
      | _ \<Rightarrow> n)"

text \<open>\<open>chain\<close> lists the ancestors of the node, the parent first.\<close>

fun brandBlocks :: "ancestry \<Rightarrow> node \<Rightarrow> node" where
  "brandBlocks chain (Element tag as kids) =
     (if isBlock (tag, as)
         \<and> \<not> (closest isImg ((tag, as) # chain) \<and> \<not> closest isLinkWithHref ((tag, as) # chain))
         \<and> textContent (Element tag as kids) \<noteq> []
         \<and> brandWords (textContent (Element tag as kids)) \<noteq> textContent (Element tag as kids)
      then
        (if \<not> list_ex isElement kids
         then Element tag as (setTextContent (brandWords (textContent (Element tag as kids))))
         else Element tag as
                (map (\<lambda>k. if isElement k then brandBlocks ((tag, as) # chain) k
                          else brandDirectText k) kids))
      else Element tag as (map (brandBlocks ((tag, as) # chain)) kids))"
| "brandBlocks chain n = n"

fun brandDataAttributes :: "node \<Rightarrow> node" where
  "brandDataAttributes (Element tag as kids) =
     Element tag
       (brandAttribute ''data-content'' (brandAttribute ''data-text'' (brandAttribute ''data-title'' as)))
       (map brandDataAttributes kids)"
| "brandDataAttributes n = n"

definition brandNodes :: "node list \<Rightarrow> node list" where
  \<comment> \<open>the six steps on the children of the detached \<^verbatim>\<open>div\<close>, in source order\<close>
  "brandNodes ns =
     map brandDataAttributes
       (map (brandBlocks tempDiv)
         (map brandHeadings
           (map brandAlts
             (map brandTitles
               (map (walkText tempDiv) ns)))))"

definition replaceBranding :: "html_parser \<Rightarrow> html_serializer \<Rightarrow> string \<Rightarrow> string" where
  "replaceBranding parseHTML serializeHTML html = serializeHTML (brandNodes (parseHTML html))"

text \<open>The replacements on the title and on the content of a meta tag that is injected into the head.\<close>

definition brandTitleText :: "string \<Rightarrow> string" where
  "brandTitleText text =
     replaceAllCI (replaceAllCI (replaceAllCI text ''Allure Digital'' ''Rimalweb'')
        ''AllureDigital'' ''Rimalweb'') ''allure digital'' ''Rimalweb''"

definition brandMetaContent :: "string \<Rightarrow> string" where
  "brandMetaContent content =
     replaceAllCI (replaceAllCI (replaceAllCI (replaceAllCI content ''Allure Digital'' ''Rimalweb'')
        ''AllureDigital'' ''Rimalweb'') ''allure digital'' ''Rimalweb'')
        ''alluredigital.net'' ''rimalweb.com''"

definition brandClone :: "node \<Rightarrow> node" where
  \<comment> \<open>the clone of a \<^verbatim>\<open>meta\<close> or \<^verbatim>\<open>title\<close> element of the parsed head, as it is appended\<close>
  "brandClone el =
     (case el of
        Element tag as kids \<Rightarrow>
          (let kids = (if tag = ''TITLE'' \<and> textContent el \<noteq> []
                       then setTextContent (brandTitleText (textContent el)) else kids);
               as = (if tag = ''META''
                     then (case getAttribute as ''content'' of
                             Some content \<Rightarrow>
                               if content \<noteq> [] then setAttribute as ''content'' (brandMetaContent content)
                               else as
                           | None \<Rightarrow> as)
                     else as)
           in Element tag as kids)
      | _ \<Rightarrow> el)"




text \<open>
  A match of \<^verbatim>\<open>/\bp\b/i\<close> at the start of \<open>s\<close>, and one anywhere in \<open>s\<close>; \<open>prev\<close>
  is the character before \<open>s\<close>. A text mentions the brand when one of the three
  patterns of the walk matches in it.
\<close>

definition wordAt :: "char option \<Rightarrow> string \<Rightarrow> string \<Rightarrow> bool" where
  "wordAt prev s p =
     (p \<noteq> [] \<and> wordBoundary prev (charAt s 0) \<and> startsWithCI s p
      \<and> wordBoundary (charAt s (length p - 1)) (charAt s (length p)))"









section \<open>removeContactInfo\<close>

definition spaces :: rx where
  \<comment> \<open>\<^verbatim>\<open>\s*\<close>\<close>
  "spaces = Star (Cls isSpace)"

definition phoneParenDashRx :: rx where
  \<comment> \<open>\<^verbatim>\<open>/\(212\)\s*301-7615/gi\<close>\<close>
  "phoneParenDashRx = seqs [litCI ''(212)'', spaces, litCI ''301-7615'']"

definition phoneParenSpaceRx :: rx where
  \<comment> \<open>\<^verbatim>\<open>/\(212\)\s*301\s*7615/gi\<close>\<close>
  "phoneParenSpaceRx = seqs [litCI ''(212)'', spaces, litCI ''301'', spaces, litCI ''7615'']"

definition phoneSpaceRx :: rx where
  \<comment> \<open>\<^verbatim>\<open>/212\s*301\s*7615/gi\<close>\<close>
  "phoneSpaceRx = seqs [litCI ''212'', spaces, litCI ''301'', spaces, litCI ''7615'']"

definition telRx :: rx where
  \<comment> \<open>\<^verbatim>\<open>/tel:[\d\s\-\(\)]+/gi\<close>\<close>
  "telRx = seqs [litCI ''tel:'', Plus (Cls (\<lambda>c. isDigit c \<or> isSpace c \<or> c \<in> set ''-()''))]"

definition isLocalPartChar :: "char \<Rightarrow> bool" where
  \<comment> \<open>\<^verbatim>\<open>[a-zA-Z0-9._%+-]\<close>\<close>
  "isLocalPartChar c = (isLetter c \<or> isDigit c \<or> c \<in> set ''._%+-'')"

definition emailRx :: rx where
  \<comment> \<open>\<^verbatim>\<open>/[a-zA-Z0-9._%+-]+@alluredigital\.net/gi\<close>\<close>
  "emailRx = seqs [Plus (Cls isLocalPartChar), litCI ''@alluredigital.net'']"

definition mailtoRx :: rx where
  \<comment> \<open>\<^verbatim>\<open>/mailto:[a-zA-Z0-9._%+-]+@alluredigital\.net/gi\<close>\<close>
  "mailtoRx = seqs [litCI ''mailto:'', Plus (Cls isLocalPartChar), litCI ''@alluredigital.net'']"

definition addressRx :: rx where
  \<comment> \<open>\<^verbatim>\<open>/5300\s*Kings\s*Highway\s*Brooklyn[^<]*/gi\<close>\<close>
  "addressRx =
     seqs [litCI ''5300'', spaces, litCI ''Kings'', spaces, litCI ''Highway'', spaces,
           litCI ''Brooklyn'', Star (Cls (\<lambda>c. c \<noteq> CHR ''<''))]"

definition streetRx :: rx where
  \<comment> \<open>\<^verbatim>\<open>/5300\s*Kings\s*Highway/gi\<close>\<close>
  "streetRx = seqs [litCI ''5300'', spaces, litCI ''Kings'', spaces, litCI ''Highway'']"

definition cityRx :: rx where
  \<comment> \<open>\<^verbatim>\<open>/Brooklyn,\s*NY\s*11234/gi\<close>\<close>
  "cityRx = seqs [litCI ''Brooklyn,'', spaces, litCI ''NY'', spaces, litCI ''11234'']"

definition delete :: "rx \<Rightarrow> string \<Rightarrow> string" where
  \<comment> \<open>\<^verbatim>\<open>s.replace(/r/gi, '')\<close>\<close>
  "delete r s = replaceRx r (\<lambda>m caps. []) None s"

text \<open>The ten replacements on the markup, in source order.\<close>

definition removeFromMarkup :: "string \<Rightarrow> string" where
  "removeFromMarkup html =
     (let html = delete phoneParenDashRx html;
          html = replaceAllCI html ''212-301-7615'' [];
          html = delete phoneParenSpaceRx html;
          html = delete phoneSpaceRx html;
          html = delete telRx html;
          html = replaceAllCI html ''info@alluredigital.net'' [];
          html = delete emailRx html;
          html = delete mailtoRx html;
          html = delete addressRx html;
          html = delete cityRx html
      in html)"

text \<open>The five replacements on the text of an element.\<close>

definition removeFromText :: "string \<Rightarrow> string" where
  "removeFromText text =
     (let text = delete phoneParenDashRx text;
          text = replaceAllCI text ''212-301-7615'' [];
          text = replaceAllCI text ''info@alluredigital.net'' [];
          text = delete streetRx text;
          text = delete cityRx text
      in text)"

text \<open>
  The loop over \<^verbatim>\<open>querySelectorAll('*')\<close>. An element is rewritten when its
  text changes and its only child is a text node; such an element has no
  element below it, so the loop in document order is a recursion over the tree.
\<close>

fun removeFromNode :: "node \<Rightarrow> node" where
  "removeFromNode (Element tag attrs kids) =
     (if textContent (Element tag attrs kids) \<noteq> []
         \<and> removeFromText (textContent (Element tag attrs kids)) \<noteq> textContent (Element tag attrs kids)
         \<and> (case kids of [Text t] \<Rightarrow> True | _ \<Rightarrow> False)
      then Element tag attrs
             (setTextContent (trim (removeFromText (textContent (Element tag attrs kids)))))
      else Element tag attrs (map removeFromNode kids))"
| "removeFromNode n = n"

definition removeContactInfo :: "html_parser \<Rightarrow> html_serializer \<Rightarrow> string \<Rightarrow> string" where
  "removeContactInfo parseHTML serializeHTML html =
     serializeHTML (map removeFromNode (parseHTML (removeFromMarkup html)))"

text \<open>
  The browser's parser and serialiser at the markup of the examples: text
  without markup characters is one text node and serialises to itself.
\<close>

definition sampleParseHTML :: html_parser where
  "sampleParseHTML = (\<lambda>html. case map_of
     [(''212-301-7615'', [Text ''212-301-7615''])] html of Some ns \<Rightarrow> ns | None \<Rightarrow> [])"

definition sampleSerializeHTML :: html_serializer where
  "sampleSerializeHTML = (\<lambda>ns. case ns of [Text t] \<Rightarrow> t | _ \<Rightarrow> [])"

section \<open>The rewrite of \<^verbatim>\<open>data-settings\<close> attributes\<close>

text \<open>
  A parsed JSON value. An object lists its properties in enumeration order.
  \<^verbatim>\<open>JSON.parse\<close> and \<^verbatim>\<open>JSON.stringify\<close> belong to the platform and are
  parameters; \<open>None\<close> stands for the \<^verbatim>\<open>SyntaxError\<close> of \<^verbatim>\<open>JSON.parse\<close>.
\<close>

datatype json =
    JNull
  | JBool bool
  | JNum rat
  | JStr string
  | JArr "json list"
  | JObj "(string \<times> json) list"

type_synonym json_parser = "string \<Rightarrow> json option"
type_synonym json_printer = "json \<Rightarrow> string"

definition decodeEntities :: "string \<Rightarrow> string" where
  \<open>decodeEntities jsonStr =
     (let d = replaceAll jsonStr ''&amp;'' ''&'';
          d = replaceAll d ''&quot;'' ''"'';
          d = replaceAll d ''&lt;'' ''<'';
          d = replaceAll d ''&gt;'' ''>'';
          d = replaceAll d ''&#39;'' [CHR 0x27];
          d = replaceAll d ''&#x27;'' [CHR 0x27]
      in d)\<close>

definition encodeEntities :: "string \<Rightarrow> string" where
  \<open>encodeEntities fixedJson =
     (let e = replaceAll fixedJson ''&'' ''&amp;'';
          e = replaceAll e ''"'' ''&quot;'';
          e = replaceAll e [CHR 0x27] ''&#39;'';
          e = replaceAll e ''<'' ''&lt;'';
          e = replaceAll e ''>'' ''&gt;''
      in e)\<close>

definition domainUrlRx :: rx where
  \<comment> \<open>\<^verbatim>\<open>/https?:\/\/([^"\/]+\.)?(alluredigital|rimalweb)\.net([^"]*)/gi\<close>\<close>
  "domainUrlRx =
     seqs [litCI ''http'', Opt (litCI ''s''), lit ''://'',
           Opt (Grp 1 (Seq (Plus (Cls (\<lambda>c. c \<noteq> CHR 0x22 \<and> c \<noteq> CHR ''/''))) (lit ''.''))),
           Grp 2 (Alt (litCI ''alluredigital'') (litCI ''rimalweb'')),
           litCI ''.net'',
           Grp 3 (Star (Cls (\<lambda>c. c \<noteq> CHR 0x22)))]"

definition fixDomainUrl :: "url_ctor \<Rightarrow> string \<Rightarrow> (nat \<times> string) list \<Rightarrow> string" where
  \<comment> \<open>the callback shared by both replacements: \<^verbatim>\<open>domain === 'rimalweb'\<close> compares exactly\<close>
  "fixDomainUrl U urlMatch caps =
     (let urlToFix = (if group 2 caps = ''rimalweb''
                      then replaceAllCI urlMatch ''rimalweb.net'' ''alluredigital.net''
                      else urlMatch)
      in fixAssetUrl U urlToFix)"

definition fixRawSettings :: "url_ctor \<Rightarrow> string \<Rightarrow> string" where
  \<comment> \<open>the \<^verbatim>\<open>catch (parseError)\<close> branch: the raw attribute text, not the decoded one\<close>
  \<open>fixRawSettings U jsonStr =
     replaceRx domainUrlRx
       (\<lambda>urlMatch caps.
          replaceAll (replaceAll (fixDomainUrl U urlMatch caps) [CHR 0x5C] [CHR 0x5C, CHR 0x5C])
            ''"'' [CHR 0x5C, CHR 0x22])
       None jsonStr\<close>

text \<open>
  \<^verbatim>\<open>fixed[key] = ...\<close> does not create a property named \<^verbatim>\<open>__proto__\<close>, so that
  key of a parsed object is not copied.
\<close>

fun fixUrlsInObject :: "url_ctor \<Rightarrow> json \<Rightarrow> json" where
  "fixUrlsInObject U (JStr str) = JStr (replaceRx domainUrlRx (fixDomainUrl U) None str)"
| "fixUrlsInObject U (JArr xs) = JArr (map (fixUrlsInObject U) xs)"
| "fixUrlsInObject U (JObj kvs) =
     JObj (map (\<lambda>kv. (fst kv, fixUrlsInObject U (snd kv)))
               (filter (\<lambda>kv. fst kv \<noteq> ''__proto__'') kvs))"
| "fixUrlsInObject U j = j"

fun setProp :: "(string \<times> json) list \<Rightarrow> string \<Rightarrow> json \<Rightarrow> (string \<times> json) list" where
  "setProp [] k v = [(k, v)]"
| "setProp ((k', v') # kvs) k v =
     (if k' = k then (k, v) # kvs else (k', v') # setProp kvs k v)"

definition aboutBanner :: string where
  "aboutBanner = ''https://alluredigital.net/wp-content/uploads/2022/12/about-banner.png''"

text \<open>
  The slideshow test reads a property of \<^verbatim>\<open>parsed\<close>; on \<^verbatim>\<open>null\<close> that read
  throws a \<^verbatim>\<open>TypeError\<close>, which is \<open>None\<close> here.
\<close>

definition swapSlideshow :: "json \<Rightarrow> json option" where
  "swapSlideshow parsed =
     (case parsed of
        JNull \<Rightarrow> None
      | JObj kvs \<Rightarrow>
          if map_of kvs ''background_background'' = Some (JStr ''slideshow'')
             \<and> (case map_of kvs ''background_slideshow_gallery'' of
                    Some (JArr gallery) \<Rightarrow> True
                  | _ \<Rightarrow> False)
          then Some (JObj
                 (setProp
                   (setProp
                     (setProp kvs ''background_slideshow_gallery''
                        (JArr [JObj [(''id'', JNum 393), (''url'', JStr aboutBanner)]]))
                     ''background_background'' (JStr ''classic''))
                   ''background_image'' (JObj [(''url'', JStr aboutBanner)])))
          else Some parsed
      | _ \<Rightarrow> Some parsed)"

definition settingsCallback :: "url_ctor \<Rightarrow> json_parser \<Rightarrow> json_printer \<Rightarrow> string \<Rightarrow> string \<Rightarrow> string" where
  \<open>settingsCallback U parse stringify match jsonStr =
     (let decoded = decodeEntities jsonStr in
      case parse decoded of
        None \<Rightarrow> ''data-settings="'' @ fixRawSettings U jsonStr @ ''"''
      | Some parsed \<Rightarrow>
          (case swapSlideshow parsed of
             None \<Rightarrow> match
           | Some parsed \<Rightarrow>
               (let fixedObj = fixUrlsInObject U parsed;
                    fixedJson = stringify fixedObj;
                    reEncoded = encodeEntities fixedJson
                in ''data-settings="'' @ reEncoded @ ''"'')))\<close>

definition dataSettingsRx :: rx where
  \<comment> \<open>\<^verbatim>\<open>/data-settings="([^"]*)"/gi\<close>\<close>
  \<open>dataSettingsRx =
     seqs [litCI ''data-settings="'', Grp 1 (Star (Cls (\<lambda>c. c \<noteq> CHR 0x22))), lit ''"'']\<close>

definition rewriteDataSettings :: "url_ctor \<Rightarrow> json_parser \<Rightarrow> json_printer \<Rightarrow> string \<Rightarrow> string" where
  "rewriteDataSettings U parse stringify bodyHtml =
     replaceRx dataSettingsRx
       (\<lambda>match caps. settingsCallback U parse stringify match (group 1 caps))
       None bodyHtml"

text \<open>
  \<^verbatim>\<open>JSON.parse\<close> at the texts of the examples; it throws on the others used
  below, which are not JSON.
\<close>

definition sampleJSONparse :: json_parser where
  \<open>sampleJSONparse = map_of
     [(''null'', JNull),
      (''{"background_background":"classic"}'', JObj [(''background_background'', JStr ''classic'')])]\<close>

definition sampleJSONstringify :: json_printer where
  \<open>sampleJSONstringify j =
     (if j = JObj [(''background_background'', JStr ''classic'')]
      then ''{"background_background":"classic"}'' else [])\<close>

section \<open>Script injection and readiness\<close>

text \<open>
  \<^verbatim>\<open>setAttribute\<close> throws on a name it does not accept; which names those are is
  the browser's business, so the test is a parameter. \<open>None\<close> is the exception.
\<close>

type_synonym name_check = "string \<Rightarrow> bool"

fun copyAttributes :: "name_check \<Rightarrow> attr_list \<Rightarrow> attr_list \<Rightarrow> attr_list option" where
  "copyAttributes valid [] target = Some target"
| "copyAttributes valid ((k, v) # as) target =
     (if valid k then copyAttributes valid as (setAttribute target k v) else None)"

definition externalApis :: "string list" where
  "externalApis =
     [''maps.googleapis.com'', ''googleapis.com'', ''gstatic.com'', ''googletagmanager.com'',
      ''google-analytics.com'', ''facebook.net'', ''clarity.ms'', ''cleantalk.org'',
      ''pearldiver.io'', ''usbrowserspeed.com'', ''recaptcha'']"

definition trackingWords :: "string list" where
  "trackingWords = [''gtag'', ''fbq'', ''clarity'', ''dataLayer'', ''google'', ''maps'', ''recaptcha'']"

text \<open>
  The state of the loop over \<^verbatim>\<open>allScripts\<close>: the scripts appended to
  \<^verbatim>\<open>document.head\<close> so far, the sources whose load is awaited
  (\<^verbatim>\<open>scriptPromises\<close>, one promise for each), and \<^verbatim>\<open>scriptsLoadedRef.current\<close>.
\<close>

record injection =
  appended :: "node list"
  awaited :: "string list"
  scriptsLoaded :: "string list"

definition reflectFlag :: "attr_list \<Rightarrow> string \<Rightarrow> attr_list \<Rightarrow> attr_list" where
  \<comment> \<open>\<^verbatim>\<open>if (script.hasAttribute(k)) newScript[k] = true\<close>\<close>
  "reflectFlag source k target = (if hasAttribute source k then setAttribute target k [] else target)"

text \<open>
  One turn of the loop. \<^verbatim>\<open>script.src\<close> is non-empty exactly when an HTML
  \<^verbatim>\<open>script\<close> element has a \<^verbatim>\<open>src\<close> attribute.
\<close>

definition injectScript :: "url_ctor \<Rightarrow> name_check \<Rightarrow> injection \<Rightarrow> node \<Rightarrow> injection option" where
  "injectScript U valid st script =
     (case script of
        Element tag as kids \<Rightarrow>
          if tag = ''SCRIPT'' \<and> hasAttribute as ''src'' then
            (let src = (case getAttribute as ''src'' of None \<Rightarrow> [] | Some v \<Rightarrow> v) in
             if list_ex (includes_str src) externalApis then Some st
             else if src \<in> set (scriptsLoaded st) then Some st
             else
               (case (if includes_str src ''alluredigital.net'' \<or> startsWith src ''http''
                      then map_option (\<lambda>filename. ''/assets/'' @ filename) (getAssetFilename U src)
                      else Some src) of
                  None \<Rightarrow> Some st
                | Some newSrc \<Rightarrow>
                    (case copyAttributes valid (filter (\<lambda>kv. fst kv \<noteq> ''src'') as) [(''src'', newSrc)] of
                       None \<Rightarrow> None
                     | Some copied \<Rightarrow>
                         Some (st\<lparr>appended := appended st @
                                     [Element ''SCRIPT''
                                        (reflectFlag as ''defer'' (reflectFlag as ''async'' copied)) []],
                                  awaited := awaited st @ [src],
                                  scriptsLoaded := scriptsLoaded st @ [src]\<rparr>))))
          else if textContent script \<noteq> [] then
            (let scriptText = textContent script in
             if list_ex (includes_str scriptText) trackingWords then Some st
             else if take 50 scriptText \<in> set (scriptsLoaded st) then Some st
             else
               (case copyAttributes valid as [] of
                  None \<Rightarrow> None
                | Some copied \<Rightarrow>
                    Some (st\<lparr>appended := appended st @ [Element ''SCRIPT'' copied [Text scriptText]],
                             scriptsLoaded := scriptsLoaded st @ [take 50 scriptText]\<rparr>)))
          else Some st
      | _ \<Rightarrow> Some st)"

fun injectScripts :: "url_ctor \<Rightarrow> name_check \<Rightarrow> injection \<Rightarrow> node list \<Rightarrow> injection option" where
  "injectScripts U valid st [] = Some st"
| "injectScripts U valid st (script # scripts) =
     (case injectScript U valid st script of
        None \<Rightarrow> None
      | Some st' \<Rightarrow> injectScripts U valid st' scripts)"

text \<open>
  What happens after the effect has returned. Time is counted in milliseconds.
  A script that was appended fires \<^verbatim>\<open>load\<close> or \<^verbatim>\<open>error\<close>, and either handler
  resolves its promise. When the last promise is resolved, the callback of
  \<^verbatim>\<open>Promise.all(...).then\<close> runs: it sets the 300 ms timer, unless it throws on the
  way (the call of \<^verbatim>\<open>window.jQuery\<close>), in which case the \<^verbatim>\<open>catch\<close> handler clears
  \<^verbatim>\<open>isLoading\<close> at once. A timer fires no earlier than its delay.
\<close>

record readiness =
  now :: nat
  isLoading :: bool
  unsettled :: "nat list"
  timer :: "nat option"
  settledAt :: "nat option"

datatype browser_event = Elapse nat | ScriptLoad nat | ScriptError nat | TimerFires

definition resolvePromise :: "bool \<Rightarrow> nat \<Rightarrow> readiness \<Rightarrow> readiness" where
  "resolvePromise callbackThrows i st =
     (if i \<notin> set (unsettled st) then st
      else
        (let rest = filter (\<lambda>j. j \<noteq> i) (unsettled st) in
         if rest \<noteq> [] then st\<lparr>unsettled := rest\<rparr>
         else if callbackThrows
           then st\<lparr>unsettled := [], settledAt := Some (now st), isLoading := False\<rparr>
           else st\<lparr>unsettled := [], settledAt := Some (now st), timer := Some (now st + 300)\<rparr>))"

definition react :: "bool \<Rightarrow> readiness \<Rightarrow> browser_event \<Rightarrow> readiness" where
  "react callbackThrows st ev =
     (case ev of
        Elapse d \<Rightarrow> st\<lparr>now := now st + d\<rparr>
      | ScriptLoad i \<Rightarrow> resolvePromise callbackThrows i st
      | ScriptError i \<Rightarrow> resolvePromise callbackThrows i st
      | TimerFires \<Rightarrow>
          (case timer st of
             Some due \<Rightarrow> if due \<le> now st then st\<lparr>isLoading := False, timer := None\<rparr> else st
           | None \<Rightarrow> st))"

text \<open>The end of the effect: with promises it waits for them, without it sets the 100 ms timer.\<close>

definition signalReadiness :: "nat \<Rightarrow> readiness" where
  "signalReadiness promises =
     \<lparr>now = 0, isLoading = True, unsettled = [0..<promises],
      timer = (if promises > 0 then None else Some 100), settledAt = None\<rparr>"

definition afterEffect :: "bool \<Rightarrow> nat \<Rightarrow> browser_event list \<Rightarrow> readiness" where
  "afterEffect callbackThrows promises events =
     foldl (react callbackThrows) (signalReadiness promises) events"

text \<open>What the component renders: the overlay, and the opacity of the container.\<close>

record rendering =
  overlay :: bool
  opacity :: nat

definition render :: "bool \<Rightarrow> rendering" where
  "render loading = \<lparr>overlay = loading, opacity = (if loading then 0 else 1)\<rparr>"

definition hasSrc :: "node \<Rightarrow> bool" where
  "hasSrc n = (case n of Element tag as kids \<Rightarrow> hasAttribute as ''src'' | _ \<Rightarrow> False)"

definition isHtmlScript :: "node \<Rightarrow> bool" where
  "isHtmlScript n = (case n of Element tag as kids \<Rightarrow> tag = ''SCRIPT'' | _ \<Rightarrow> False)"

definition sampleScripts :: "node list" where
  "sampleScripts =
     [Element ''SCRIPT'' [(''src'', ''https://alluredigital.net/wp-includes/js/jquery/jquery.min.js''),
                          (''defer'', [])] [],
      Element ''SCRIPT'' [(''src'', ''https://www.googletagmanager.com/gtag/js?id=G-1'')] [],
      Element ''SCRIPT'' [(''id'', ''menu-js'')] [Text ''document.body.classList.add(1)'']]"

text \<open>
  The invariant of the runs of \<open>react\<close>. \<open>settledAt\<close> records when the last
  promise was resolved; nothing reads it.
\<close>

definition ready_inv :: "bool \<Rightarrow> nat \<Rightarrow> readiness \<Rightarrow> bool" where
  "ready_inv throws n st =
     ((\<forall>t. settledAt st = Some t \<longrightarrow> t \<le> now st \<and> unsettled st = [] \<and> 0 < n) \<and>
      (\<forall>due. timer st = Some due \<longrightarrow>
          (if 0 < n then (\<exists>t. settledAt st = Some t \<and> due = t + 300) else due = 100)) \<and>
      (\<not> isLoading st \<longrightarrow>
          unsettled st = [] \<and>
          (if 0 < n then (\<exists>t. settledAt st = Some t \<and> (throws \<or> t + 300 \<le> now st))
           else 100 \<le> now st)) \<and>
      (unsettled st = [] \<and> 0 < n \<longrightarrow> settledAt st \<noteq> None) \<and>
      (n = 0 \<longrightarrow> unsettled st = []))"

section \<open>The effect of the page renderer\<close>

text \<open>
  The effect writes to the live document: it appends to \<^verbatim>\<open>document.head\<close>,
  sets attributes and content of the container, starts image loads and
  schedules the readiness signal. The trace of an invocation lists these
  writes in the order in which they happen. The replacement of a logo happens
  in the parsed document; the trace records it as well.
\<close>

datatype trace_event =
    HeadAppend node
  | ContainerClass string
  | ContainerAttribute string string
  | LogoSwap "nat list"
  | InnerHTML string
  | ImageHandler string
  | ImageProbe string
  | BackgroundProbe string
  | StaticBackground string
  | SlideProbe json
  | AwaitScripts nat
  | ReadyTimer nat

text \<open>
  The document that \<^verbatim>\<open>DOMParser\<close> returns: the attributes of the root element,
  the children of the head, and the attributes and children of the body.
\<close>

record document =
  htmlAttributes :: attr_list
  headChildren :: "node list option"
  bodyAttributes :: attr_list
  bodyChildren :: "node list option"

text \<open>What the effect needs from the browser, besides the URL constructor.\<close>

record platform =
  newURL :: url_ctor
  parseFromString :: "string \<Rightarrow> document"
  parseHTML :: html_parser
  serializeHTML :: html_serializer
  querySelectorLive :: "node list \<Rightarrow> string \<Rightarrow> bool option"
    \<comment> \<open>\<^verbatim>\<open>document.querySelector(sel) !== null\<close>, given what the effect has appended to the
        head so far; \<open>None\<close> when the selector is not valid\<close>
  validName :: name_check
  randomId :: "nat \<Rightarrow> string"
    \<comment> \<open>\<^verbatim>\<open>Math.random().toString()\<close> at the n-th style element\<close>
  roundScaled :: "string \<Rightarrow> rat \<Rightarrow> string"
    \<comment> \<open>\<^verbatim>\<open>Math.round(parseInt(text) * factor).toString()\<close>\<close>
  inheritedToString :: "string \<Rightarrow> string"
    \<comment> \<open>the string conversion of a property of \<^verbatim>\<open>Object.prototype\<close>\<close>
  parseJSON :: json_parser
  stringifyJSON :: json_printer

text \<open>The elements of a forest in document order, each with the chain above it.\<close>

fun elements :: "ancestry \<Rightarrow> node \<Rightarrow> (ancestry \<times> node) list" where
  "elements chain (Element tag as kids) =
     (chain, Element tag as kids) # concat (map (elements ((tag, as) # chain)) kids)"
| "elements chain n = []"

definition descendants :: "ancestry \<Rightarrow> node list \<Rightarrow> (ancestry \<times> node) list" where
  "descendants chain ns = concat (map (elements chain) ns)"

definition tagOf :: "node \<Rightarrow> string" where
  "tagOf n = (case n of Element tag as kids \<Rightarrow> tag | _ \<Rightarrow> [])"

definition attributesOf :: "node \<Rightarrow> attr_list" where
  "attributesOf n = (case n of Element tag as kids \<Rightarrow> as | _ \<Rightarrow> [])"

definition attributeOr :: "attr_list \<Rightarrow> string \<Rightarrow> string \<Rightarrow> string" where
  \<comment> \<open>\<^verbatim>\<open>el.getAttribute(k) || d\<close>\<close>
  "attributeOr as k d = (case getAttribute as k of None \<Rightarrow> d | Some v \<Rightarrow> if v = [] then d else v)"

subsection \<open>Head injection\<close>

definition isStylesheet :: "node \<Rightarrow> bool" where
  \<comment> \<open>\<^verbatim>\<open>link[rel="stylesheet"], style\<close>; in an HTML document \<^verbatim>\<open>rel\<close> compares without case\<close>
  "isStylesheet n =
     ((localName (tagOf n) = ''link''
       \<and> (case getAttribute (attributesOf n) ''rel'' of
             None \<Rightarrow> False
           | Some r \<Rightarrow> map lower r = ''stylesheet''))
      \<or> localName (tagOf n) = ''style'')"

definition isFontHost :: "string \<Rightarrow> bool" where
  "isFontHost href =
     (includes_str href ''fonts.googleapis.com'' \<or> includes_str href ''googleapis.com''
      \<or> includes_str href ''gstatic.com'')"

text \<open>The state of the first loop: the trace so far and \<^verbatim>\<open>stylesLoadedRef.current\<close>.\<close>

definition injectStyle :: "platform \<Rightarrow> (trace_event list \<times> string list) \<Rightarrow> (nat \<times> node) \<Rightarrow> (trace_event list \<times> string list)" where
  "injectStyle P st el =
     (case snd el of
        Element tag as kids \<Rightarrow>
          if tag = ''LINK'' then
            (let href = attributeOr as ''href'' [] in
             if href \<in> set (snd st) then st
             else if isFontHost href then st
             else
               (case (if includes_str href ''alluredigital.net'' \<or> startsWith href ''http''
                      then map_option (\<lambda>filename. setAttribute as ''href'' (''/assets/'' @ filename))
                             (getAssetFilename (newURL P) href)
                      else Some as) of
                  None \<Rightarrow> st
                | Some as' \<Rightarrow>
                    (fst st @ [HeadAppend (Element tag (setAttribute as' ''data-injected'' ''true'') kids)],
                     snd st @ [href])))
          else if tag = ''STYLE'' then
            (let styleId = (if take 50 (textContent (snd el)) \<noteq> []
                            then take 50 (textContent (snd el)) else randomId P (fst el)) in
             if styleId \<in> set (snd st) then st
             else (fst st @ [HeadAppend (Element tag (setAttribute as ''data-injected'' ''true'') kids)],
                   snd st @ [styleId]))
          else st
      | _ \<Rightarrow> st)"

definition metaSelector :: "node \<Rightarrow> string" where
  \<open>metaSelector el =
     (if tagOf el = ''META''
      then ''meta[name="'' @
           (case getAttribute (attributesOf el) ''name'' of
              Some v \<Rightarrow> if v \<noteq> [] then v else
                (case getAttribute (attributesOf el) ''property'' of None \<Rightarrow> ''null'' | Some w \<Rightarrow> w)
            | None \<Rightarrow>
                (case getAttribute (attributesOf el) ''property'' of None \<Rightarrow> ''null'' | Some w \<Rightarrow> w))
           @ ''"]''
      else ''title'')\<close>

definition appendedNodes :: "trace_event list \<Rightarrow> node list" where
  "appendedNodes tr = concat (map (\<lambda>e. case e of HeadAppend n \<Rightarrow> [n] | _ \<Rightarrow> []) tr)"

definition injectMeta :: "platform \<Rightarrow> trace_event list \<Rightarrow> node \<Rightarrow> trace_event list option" where
  "injectMeta P tr el =
     (case querySelectorLive P (appendedNodes tr) (metaSelector el) of
        None \<Rightarrow> None
      | Some existing \<Rightarrow> Some (if existing then tr else tr @ [HeadAppend (brandClone el)]))"

fun injectMetas :: "platform \<Rightarrow> trace_event list \<Rightarrow> node list \<Rightarrow> trace_event list option" where
  "injectMetas P tr [] = Some tr"
| "injectMetas P tr (el # els) =
     (case injectMeta P tr el of
        None \<Rightarrow> None
      | Some tr' \<Rightarrow> injectMetas P tr' els)"

definition isMetaOrTitle :: "node \<Rightarrow> bool" where
  \<comment> \<open>\<^verbatim>\<open>meta, title\<close>\<close>
  "isMetaOrTitle n = (localName (tagOf n) = ''meta'' \<or> localName (tagOf n) = ''title'')"

text \<open>
  The head injection. The chain above a child of the head plays no part in
  these loops and is left empty.
\<close>

definition injectHead :: "platform \<Rightarrow> string list \<Rightarrow> node list \<Rightarrow> (trace_event list \<times> string list) option" where
  "injectHead P stylesLoaded headKids =
     (let els = map snd (descendants [] headKids);
          sheets = filter isStylesheet els;
          st = foldl (injectStyle P) ([], stylesLoaded) (zip [0..<length sheets] sheets)
      in case injectMetas P (fst st) (filter isMetaOrTitle els) of
           None \<Rightarrow> None
         | Some tr \<Rightarrow> Some (tr, snd st))"

subsection \<open>The parsed body before it is inserted\<close>

text \<open>
  A node of a forest is addressed by the indices of the children on the way to
  it. The loop over the images runs over a list made beforehand and changes
  the tree on the way, so it is followed image by image.
\<close>

fun nodeAt :: "node list \<Rightarrow> nat list \<Rightarrow> node option" where
  "nodeAt ns [] = None"
| "nodeAt ns [i] = (if i < length ns then Some (ns ! i) else None)"
| "nodeAt ns (i # j # p) =
     (if i < length ns
      then (case ns ! i of Element tag as kids \<Rightarrow> nodeAt kids (j # p) | _ \<Rightarrow> None)
      else None)"

fun replaceAt :: "node list \<Rightarrow> nat list \<Rightarrow> node \<Rightarrow> node list" where
  "replaceAt ns [] new = ns"
| "replaceAt ns [i] new = (if i < length ns then ns[i := new] else ns)"
| "replaceAt ns (i # j # p) new =
     (if i < length ns
      then (case ns ! i of
              Element tag as kids \<Rightarrow> ns[i := Element tag as (replaceAt kids (j # p) new)]
            | _ \<Rightarrow> ns)
      else ns)"

fun chainAt :: "ancestry \<Rightarrow> node list \<Rightarrow> nat list \<Rightarrow> ancestry" where
  "chainAt chain ns (i # j # p) =
     (if i < length ns
      then (case ns ! i of
              Element tag as kids \<Rightarrow> chainAt ((tag, as) # chain) kids (j # p)
            | _ \<Rightarrow> chain)
      else chain)"
| "chainAt chain ns p = chain"

fun pathsNode :: "node \<Rightarrow> nat list list" and pathsList :: "nat \<Rightarrow> node list \<Rightarrow> nat list list" where
  "pathsNode (Element tag as kids) = [] # pathsList 0 kids"
| "pathsNode (Text t) = []"
| "pathsNode (Comment c) = []"
| "pathsList i [] = []"
| "pathsList i (n # ns) = map ((#) i) (pathsNode n) @ pathsList (Suc i) ns"

definition childrenOf :: "node \<Rightarrow> node list" where
  "childrenOf n = (case n of Element tag as kids \<Rightarrow> kids | _ \<Rightarrow> [])"

definition isSectionOrDiv :: "node \<Rightarrow> bool" where
  \<comment> \<open>\<^verbatim>\<open>section, div\<close>\<close>
  "isSectionOrDiv n = (localName (tagOf n) = ''section'' \<or> localName (tagOf n) = ''div'')"

text \<open>
  When a logo inside a link is replaced, the link is exchanged for a copy that
  holds the new logo, and the old link leaves the document with everything in
  it. The images in it are still on the list: the loop treats them where they
  are, with no ancestor beyond the old link. So the loop is followed on a
  working forest in which an old link stays at its place, next to the list of
  the exchanges made: the path of each old link and the copy that took its
  place. \<open>detachedAbove\<close> is the length of the path of the innermost old link
  above a node, 0 for a node that is still in the document.
\<close>

definition detachedAbove :: "(nat list \<times> node) list \<Rightarrow> nat list \<Rightarrow> nat" where
  "detachedAbove exchanged p =
     fold max
       (map length (filter (\<lambda>d. length d < length p \<and> take (length d) p = d) (map fst exchanged)))
       0"

text \<open>
  \<^verbatim>\<open>el.closest('section, div')\<close> for the element at a path, as a node with its
  subtree; \<open>self\<close> says whether the element itself is a candidate, and \<open>base\<close> is
  \<open>detachedAbove\<close> of the element.
\<close>

definition closestSection :: "bool \<Rightarrow> nat \<Rightarrow> node list \<Rightarrow> nat list \<Rightarrow> node option" where
  "closestSection self base ns p =
     (case filter (\<lambda>n. case n of Some el \<Rightarrow> isSectionOrDiv el | None \<Rightarrow> False)
             (map (\<lambda>k. nodeAt ns (take k p))
                  (rev [max 1 base..<(if self then Suc (length p) else length p)])) of
        [] \<Rightarrow> None
      | found # _ \<Rightarrow> found)"

definition mentionsWelcome :: "string \<Rightarrow> bool" where
  "mentionsWelcome t =
     (includes_str t ''Welcome to'' \<or> includes_str t ''Breaking Through''
      \<or> includes_str t ''Digital Impasse'')"

definition firstWithin :: "(node \<Rightarrow> bool) \<Rightarrow> node \<Rightarrow> node option" where
  \<comment> \<open>\<^verbatim>\<open>el.querySelector(sel)\<close>\<close>
  "firstWithin sel el = find sel (map snd (descendants [] (childrenOf el)))"

definition isWelcomeSection :: "(node \<Rightarrow> bool) \<Rightarrow> node option \<Rightarrow> bool" where
  "isWelcomeSection sel section =
     (case section of
        None \<Rightarrow> False
      | Some sec \<Rightarrow>
          (case firstWithin sel sec of None \<Rightarrow> False | Some h \<Rightarrow> mentionsWelcome (textContent h)))"

definition isTitleHeading :: "node \<Rightarrow> bool" where
  \<comment> \<open>\<^verbatim>\<open>h2, h1, .elementor-heading-title\<close>\<close>
  "isTitleHeading n =
     (localName (tagOf n) = ''h2'' \<or> localName (tagOf n) = ''h1''
      \<or> ''elementor-heading-title'' \<in> set (classTokens (attributesOf n)))"

definition classHas :: "string \<Rightarrow> (string \<times> attr_list) \<Rightarrow> bool" where
  \<comment> \<open>\<^verbatim>\<open>[class*="w" i]\<close>\<close>
  "classHas w e = (case getAttribute (snd e) ''class'' of None \<Rightarrow> False | Some v \<Rightarrow> includesCI v w)"

definition hasTag :: "string \<Rightarrow> (string \<times> attr_list) \<Rightarrow> bool" where
  "hasTag t e = (localName (fst e) = t)"

definition isLogoImage :: "string \<Rightarrow> bool" where
  "isLogoImage src =
     (let srcLower = map lower src in
      includes_str srcLower ''allure''
      \<and> (includes_str srcLower ''logo'' \<or> includes_str srcLower ''asset-1''
         \<or> includes_str srcLower ''symbol''))"

definition isInHeader :: "ancestry \<Rightarrow> bool" where
  "isInHeader chain =
     (closest (hasTag ''header'') chain
      \<or> closest (\<lambda>e. getAttribute (snd e) ''data-elementor-type'' = Some ''header'') chain
      \<or> closest (classHas ''elementor-location-header'') chain)"

definition isInFooter :: "ancestry \<Rightarrow> bool" where
  "isInFooter chain = (closest (hasTag ''footer'') chain \<or> closest (classHas ''footer'') chain)"

definition hasLogoClass :: "ancestry \<Rightarrow> bool" where
  "hasLogoClass chain =
     (closest (classHas ''logo'') chain \<or> closest (classHas ''brand'') chain
      \<or> closest (classHas ''site-logo'') chain \<or> closest (classHas ''elementor-widget-image'') chain)"

definition dimension :: "platform \<Rightarrow> attr_list \<Rightarrow> string \<Rightarrow> rat \<Rightarrow> string" where
  \<comment> \<open>a parsed document has no layout, so \<^verbatim>\<open>offsetWidth\<close> and \<^verbatim>\<open>offsetHeight\<close> are 0\<close>
  "dimension P as k factor = roundScaled P (attributeOr as k ''0'') factor"

definition resizeWelcomeImage :: "platform \<Rightarrow> attr_list \<Rightarrow> attr_list" where
  "resizeWelcomeImage P as =
     (let width = dimension P as ''width'' (7 / 10);
          height = dimension P as ''height'' (7 / 10);
          currentStyle = attributeOr as ''style'' []
      in setAttribute (setAttribute (setAttribute as ''width'' width) ''height'' height) ''style''
           (''width: '' @ width @ ''px; height: '' @ height @ ''px; max-width: '' @ width
              @ ''px; object-fit: contain; '' @ currentStyle))"

definition newLogo :: "platform \<Rightarrow> bool \<Rightarrow> attr_list \<Rightarrow> node" where
  "newLogo P inFooter as =
     (let width = dimension P as ''width'' (12 / 10);
          height = dimension P as ''height'' (12 / 10);
          classes = attributeOr as ''class'' [];
          style = attributeOr as ''style'' [];
          alt = attributeOr as ''alt'' ''Rimalweb'';
          opacityStyle = (if inFooter then ''opacity: 0.5; '' else [])
      in Element ''IMG''
           [(''src'', ''/rimal.png''), (''width'', width), (''height'', height), (''alt'', alt),
            (''class'', classes),
            (''style'', ''width: '' @ width @ ''px; height: '' @ height @ ''px; object-fit: contain; ''
                          @ opacityStyle @ style)]
           [])"

text \<open>
  The state of the loop over the images: the logo replacements so far, the
  working forest, and the exchanged links.
\<close>

record image_loop =
  swapped :: "trace_event list"
  working :: "node list"
  exchanged :: "(nat list \<times> node) list"

text \<open>
  One image of the list. \<open>outer\<close> is the chain above the children of the body:
  the body and the root element. \<open>None\<close> is the exception of \<^verbatim>\<open>setAttribute\<close>
  for an attribute name of the link that is not a valid name. A link that has
  left the document has no parent, and \<^verbatim>\<open>parent.parentElement?.replaceChild\<close>
  does nothing for it.
\<close>

definition fixImage :: "platform \<Rightarrow> ancestry \<Rightarrow> image_loop \<Rightarrow> nat list \<Rightarrow> image_loop option" where
  "fixImage P outer st p =
     (case nodeAt (working st) p of
        Some (Element tag as kids) \<Rightarrow>
          (case getAttribute as ''src'' of
             None \<Rightarrow> Some st
           | Some src \<Rightarrow>
               if src = [] then Some st
               else
                 (let base = detachedAbove (exchanged st) p;
                      as1 = setAttribute as ''src'' (fixAssetUrl (newURL P) src);
                      ns1 = replaceAt (working st) p (Element tag as1 kids);
                      as2 = (if isWelcomeSection isTitleHeading (closestSection False base ns1 p)
                             then resizeWelcomeImage P as1 else as1);
                      ns2 = replaceAt ns1 p (Element tag as2 kids);
                      above = (if base = 0 then chainAt outer ns2 p
                               else take (length p - base) (chainAt [] ns2 p));
                      chain = (tag, as2) # above;
                      st2 = st\<lparr>working := ns2\<rparr>
                  in if isLogoImage src \<and> (isInHeader chain \<or> isInFooter chain \<or> hasLogoClass chain)
                     then
                       (case above of
                          [] \<Rightarrow> Some st2
                        | parent # _ \<Rightarrow>
                            if fst parent = ''A'' then
                              (if \<not> list_all (\<lambda>kv. validName P (fst kv)) (snd parent) then None
                               else if 0 < base \<and> length p = Suc base then Some st2
                               else Some (st2\<lparr>swapped := swapped st @ [LogoSwap p],
                                               exchanged := exchanged st @
                                                 [(butlast p,
                                                   Element ''A'' (snd parent)
                                                     [newLogo P (isInFooter chain) as2])]\<rparr>))
                            else Some (st2\<lparr>swapped := swapped st @ [LogoSwap p],
                                            working := replaceAt ns2 p (newLogo P (isInFooter chain) as2)\<rparr>))
                     else Some st2))
      | _ \<Rightarrow> Some st)"

definition isImgWithSrc :: "node \<Rightarrow> bool" where
  \<comment> \<open>\<^verbatim>\<open>img[src]\<close>\<close>
  "isImgWithSrc n = (localName (tagOf n) = ''img'' \<and> hasAttribute (attributesOf n) ''src'')"

definition pathsWhere :: "(node \<Rightarrow> bool) \<Rightarrow> node list \<Rightarrow> nat list list" where
  \<comment> \<open>\<^verbatim>\<open>querySelectorAll\<close>: the paths of the matching elements, in document order\<close>
  "pathsWhere sel ns =
     filter (\<lambda>p. case nodeAt ns p of Some n \<Rightarrow> sel n | None \<Rightarrow> False) (pathsList 0 ns)"

fun fixImages :: "platform \<Rightarrow> ancestry \<Rightarrow> image_loop \<Rightarrow> nat list list \<Rightarrow> image_loop option" where
  "fixImages P outer st [] = Some st"
| "fixImages P outer st (p # ps) =
     (case fixImage P outer st p of
        None \<Rightarrow> None
      | Some st' \<Rightarrow> fixImages P outer st' ps)"

definition attachedBody :: "image_loop \<Rightarrow> node list" where
  \<comment> \<open>the children of the body after the loop: every old link that is not inside another
      one gives way to its copy\<close>
  "attachedBody st =
     foldl (\<lambda>ns (d, link). if detachedAbove (exchanged st) d = 0 then replaceAt ns d link else ns)
       (working st) (exchanged st)"

text \<open>The three loops that only rewrite attributes.\<close>

fun mapAttributes :: "(string \<Rightarrow> attr_list \<Rightarrow> attr_list) \<Rightarrow> node \<Rightarrow> node" where
  "mapAttributes f (Element tag as kids) = Element tag (f tag as) (map (mapAttributes f) kids)"
| "mapAttributes f n = n"

definition fixLinkHref :: "platform \<Rightarrow> string \<Rightarrow> attr_list \<Rightarrow> attr_list" where
  \<comment> \<open>\<^verbatim>\<open>link[href]\<close>\<close>
  "fixLinkHref P tag as =
     (if localName tag = ''link'' then
        (case getAttribute as ''href'' of
           Some href \<Rightarrow> if href \<noteq> [] then setAttribute as ''href'' (fixAssetUrl (newURL P) href) else as
         | None \<Rightarrow> as)
      else as)"

definition isQuote :: "char \<Rightarrow> bool" where
  "isQuote c = (c = CHR 0x27 \<or> c = CHR 0x22)"

definition styleUrlRx :: rx where
  \<comment> \<open>\<^verbatim>\<open>/url\(['"]?([^'")]+)['"]?\)/g\<close>\<close>
  "styleUrlRx =
     seqs [lit ''url('', Opt (Cls isQuote),
           Grp 1 (Plus (Cls (\<lambda>c. \<not> isQuote c \<and> c \<noteq> CHR '')''))),
           Opt (Cls isQuote), lit '')'']"

definition fixBackgroundStyle :: "platform \<Rightarrow> string \<Rightarrow> attr_list \<Rightarrow> attr_list" where
  \<comment> \<open>\<^verbatim>\<open>[style*="background"]\<close>\<close>
  "fixBackgroundStyle P tag as =
     (case getAttribute as ''style'' of
        Some style \<Rightarrow>
          if includes_str style ''background''
          then setAttribute as ''style''
                 (replaceRx styleUrlRx
                    (\<lambda>m caps. ''url('' @ [CHR 0x27] @ fixAssetUrl (newURL P) (group 1 caps) @ [CHR 0x27] @ '')'')
                    None style)
          else as
      | None \<Rightarrow> as)"

definition removeAttribute :: "attr_list \<Rightarrow> string \<Rightarrow> attr_list" where
  "removeAttribute as k = filter (\<lambda>kv. fst kv \<noteq> k) as"

definition fixAnchorAttributes :: "platform \<Rightarrow> string \<Rightarrow> attr_list \<Rightarrow> attr_list" where
  \<comment> \<open>\<^verbatim>\<open>a[href]\<close>: the anchor loop, on the attribute list of the element\<close>
  "fixAnchorAttributes P tag as =
     (if localName tag = ''a'' then
        (case getAttribute as ''href'' of
           None \<Rightarrow> as
         | Some h \<Rightarrow>
             (let a = fixAnchor (newURL P) \<lparr>a_href = Href h, a_style = getAttribute as ''style''\<rparr>;
                  as1 = (case a_href a of
                           NoHref \<Rightarrow> removeAttribute as ''href''
                         | Href h' \<Rightarrow> setAttribute as ''href'' h'
                         | HrefOfInherited k \<Rightarrow> setAttribute as ''href'' (inheritedToString P k))
              in case a_style a of
                   None \<Rightarrow> as1
                 | Some st \<Rightarrow> if a_style a = getAttribute as ''style'' then as1
                              else setAttribute as1 ''style'' st))
      else as)"

text \<open>The five replacements on the serialised body, and the two clean-up steps.\<close>

definition notQuote :: "char \<Rightarrow> bool" where
  "notQuote c = (c \<noteq> CHR 0x22)"

definition srcDomainRx :: "string \<Rightarrow> rx" where
  \<comment> \<open>\<^verbatim>\<open>/src="([^"]*alluredigital\.net[^"]*)"/gi\<close> and the same for \<^verbatim>\<open>rimalweb\.net\<close>\<close>
  \<open>srcDomainRx domain =
     seqs [litCI ''src="'',
           Grp 1 (seqs [Star (Cls notQuote), litCI domain, Star (Cls notQuote)]),
           lit ''"'']\<close>

definition toAllure :: "string \<Rightarrow> string" where
  "toAllure u = replaceAllCI u ''rimalweb.net'' ''alluredigital.net''"

definition srcsetRx :: rx where
  \<comment> \<open>\<^verbatim>\<open>/srcset="([^"]*)"/gi\<close>\<close>
  \<open>srcsetRx = seqs [litCI ''srcset="'', Grp 1 (Star (Cls notQuote)), lit ''"'']\<close>

definition fixSrcsetEntry :: "platform \<Rightarrow> string \<Rightarrow> string" where
  "fixSrcsetEntry P src =
     (case filter (\<lambda>w. w \<noteq> []) (splitWhen isSpace (trim src)) of
        [] \<Rightarrow> trim src
      | url # rest \<Rightarrow>
          if includes_str url ''alluredigital.net'' \<or> includes_str url ''rimalweb.net''
          then fixAssetUrl (newURL P) (if includes_str url ''rimalweb.net'' then toAllure url else url)
               @ (case rest of [] \<Rightarrow> [] | descriptor # _ \<Rightarrow> '' '' @ descriptor)
          else trim src)"

fun joinWith :: "string \<Rightarrow> string list \<Rightarrow> string" where
  "joinWith sep [] = []"
| "joinWith sep [x] = x"
| "joinWith sep (x # y # xs) = x @ sep @ joinWith sep (y # xs)"

definition cssUrlDomainRx :: rx where
  \<comment> \<open>\<^verbatim>\<open>/url\(['"]?([^'")]*(?:alluredigital|rimalweb)\.net[^'")]*)['"]?\)/gi\<close>\<close>
  "cssUrlDomainRx =
     seqs [litCI ''url('', Opt (Cls isQuote),
           Grp 1 (seqs [Star (Cls (\<lambda>c. \<not> isQuote c \<and> c \<noteq> CHR '')'')),
                        Alt (litCI ''alluredigital'') (litCI ''rimalweb''), litCI ''.net'',
                        Star (Cls (\<lambda>c. \<not> isQuote c \<and> c \<noteq> CHR '')''))]),
           Opt (Cls isQuote), lit '')'']"

definition rewriteBodyHtml :: "platform \<Rightarrow> string \<Rightarrow> string" where
  \<open>rewriteBodyHtml P bodyHtml =
     (let U = newURL P;
          h = rewriteDataSettings U (parseJSON P) (stringifyJSON P) bodyHtml;
          h = replaceRx (srcDomainRx ''alluredigital.net'')
                (\<lambda>m caps. ''src="'' @ fixAssetUrl U (group 1 caps) @ ''"'') None h;
          h = replaceRx srcsetRx
                (\<lambda>m caps. ''srcset="''
                   @ joinWith '', '' (map (fixSrcsetEntry P) (split_chr CHR '','' (group 1 caps)))
                   @ ''"'') None h;
          h = replaceRx cssUrlDomainRx
                (\<lambda>m caps. ''url('' @ [CHR 0x27]
                   @ fixAssetUrl U (if includes_str (group 1 caps) ''rimalweb.net''
                                    then toAllure (group 1 caps) else group 1 caps)
                   @ [CHR 0x27] @ '')'') None h;
          h = replaceRx (srcDomainRx ''rimalweb.net'')
                (\<lambda>m caps. ''src="'' @ fixAssetUrl U (toAllure (group 1 caps)) @ ''"'') None h
      in h)\<close>

text \<open>
  Everything between the head injection and the assignment to \<^verbatim>\<open>innerHTML\<close>.
  The class and the attributes of the body go to the container first; \<open>None\<close>
  is the exception of \<^verbatim>\<open>setAttribute\<close> for an attribute name that is not a
  valid name.
\<close>

definition adoptBody :: "platform \<Rightarrow> attr_list \<Rightarrow> trace_event list option" where
  "adoptBody P as =
     (if list_all (\<lambda>kv. fst kv = ''class'' \<or> validName P (fst kv)) as
      then Some ((if attributeOr as ''class'' [] \<noteq> []
                  then [ContainerClass (attributeOr as ''class'' [])] else [])
                 @ map (\<lambda>kv. ContainerAttribute (fst kv) (snd kv))
                     (filter (\<lambda>kv. fst kv \<noteq> ''class'') as))
      else None)"

text \<open>
  Then the loops over the parsed body and the replacements on its markup: the
  logo replacements, the body as it is left in the parsed document, and the
  markup that will be assigned.
\<close>

definition prepareBody :: "platform \<Rightarrow> document \<Rightarrow> node list \<Rightarrow> (trace_event list \<times> node list \<times> string) option" where
  "prepareBody P doc kids =
     (let outer = [(''BODY'', bodyAttributes doc), (''HTML'', htmlAttributes doc)] in
      case fixImages P outer \<lparr>swapped = [], working = kids, exchanged = []\<rparr>
             (pathsWhere isImgWithSrc kids) of
        None \<Rightarrow> None
      | Some imgs \<Rightarrow>
          (let body = map (mapAttributes (fixAnchorAttributes P))
                        (map (mapAttributes (fixBackgroundStyle P))
                           (map (mapAttributes (fixLinkHref P)) (attachedBody imgs)));
               bodyHtml = rewriteBodyHtml P (serializeHTML P body);
               cleanedHtml = replaceBranding (parseHTML P) (serializeHTML P) bodyHtml;
               cleanedHtml = removeContactInfo (parseHTML P) (serializeHTML P) cleanedHtml
           in Some (swapped imgs, body, cleanedHtml)))"

subsection \<open>The inserted content\<close>

text \<open>
  After the assignment the container holds what the browser parses from the
  markup. The three loops that follow install handlers and start image loads;
  what the handlers do happens after the effect has returned.
\<close>

definition isLocalAsset :: "string \<Rightarrow> bool" where
  "isLocalAsset src =
     ((includes_str src ''/assets/'' \<or> includes_str src ''alluredigital.net''
       \<or> includes_str src ''rimalweb.net'')
      \<and> \<not> includes_str src ''data:'')"

definition watchImage :: "node \<Rightarrow> trace_event list" where
  "watchImage img =
     (let src = attributeOr (attributesOf img) ''src'' [] in
      if includes_str src ''data:image/svg+xml'' then []
      else ImageHandler src # (if isLocalAsset src then [ImageProbe src] else []))"

fun searchRx :: "rx \<Rightarrow> char option \<Rightarrow> string \<Rightarrow> (nat \<times> string) list option" where
  \<comment> \<open>\<^verbatim>\<open>s.match(/r/)\<close>: the groups of the leftmost match\<close>
  "searchRx r prev [] = map_option snd (firstMatch r prev [])"
| "searchRx r prev (c # cs) =
     (case firstMatch r prev (c # cs) of
        Some (n, caps) \<Rightarrow> Some caps
      | None \<Rightarrow> searchRx r (Some c) cs)"

definition backgroundImageRx :: rx where
  \<comment> \<open>\<^verbatim>\<open>/background-image:\s*url\(['"]?([^'")]+)['"]?\)/i\<close>\<close>
  "backgroundImageRx =
     seqs [litCI ''background-image:'', spaces, litCI ''url('', Opt (Cls isQuote),
           Grp 1 (Plus (Cls (\<lambda>c. \<not> isQuote c \<and> c \<noteq> CHR '')''))),
           Opt (Cls isQuote), lit '')'']"

definition isBackgroundHolder :: "node \<Rightarrow> bool" where
  \<comment> \<open>\<^verbatim>\<open>[style*="background-image"], .bdt-scroll-image\<close>\<close>
  "isBackgroundHolder n =
     (isElement n
      \<and> ((case getAttribute (attributesOf n) ''style'' of
             Some v \<Rightarrow> includes_str v ''background-image''
           | None \<Rightarrow> False)
         \<or> ''bdt-scroll-image'' \<in> set (classTokens (attributesOf n))))"

definition isMainHeading :: "node \<Rightarrow> bool" where
  \<comment> \<open>\<^verbatim>\<open>h2, h1\<close>\<close>
  "isMainHeading n = (localName (tagOf n) = ''h2'' \<or> localName (tagOf n) = ''h1'')"

text \<open>
  The container is a \<^verbatim>\<open>div\<close>, so \<^verbatim>\<open>closest('section, div')\<close> finds it when nothing
  nearer matches. Of the desktop images only the first is requested during
  the effect.
\<close>

definition watchBackground :: "node list \<Rightarrow> nat list \<Rightarrow> trace_event list" where
  "watchBackground ns p =
     (case nodeAt ns p of
        None \<Rightarrow> []
      | Some el \<Rightarrow>
          (let section = (case closestSection True 0 ns p of
                            Some sec \<Rightarrow> sec
                          | None \<Rightarrow> Element ''DIV'' [] ns)
           in if isWelcomeSection isMainHeading (Some section)
                 \<and> ''bdt-scroll-image'' \<in> set (classTokens (attributesOf el))
              then [BackgroundProbe ''/assets/alluredigital.net_wp-content_uploads_2023_01_MACBOOK.png'']
              else
                (case searchRx backgroundImageRx None (attributeOr (attributesOf el) ''style'' []) of
                   None \<Rightarrow> []
                 | Some caps \<Rightarrow>
                     if group 1 caps \<noteq> [] \<and> isLocalAsset (group 1 caps)
                     then [BackgroundProbe (group 1 caps)] else [])))"

text \<open>
  The slideshow settings. A property read of \<^verbatim>\<open>null\<close> and a call of
  \<^verbatim>\<open>includes\<close> on a value that is neither a string nor an array throw a
  \<^verbatim>\<open>TypeError\<close>, which the \<^verbatim>\<open>catch\<close> swallows; \<open>None\<close> stands for it.
\<close>

definition decodeSettings :: "string \<Rightarrow> string" where
  \<open>decodeSettings settings =
     (let d = replaceAll settings ''&amp;'' ''&'';
          d = replaceAll d ''&quot;'' ''"'';
          d = replaceAll d ''&lt;'' ''<'';
          d = replaceAll d ''&gt;'' ''>'';
          d = replaceAll d ''&#39;'' [CHR 0x27]
      in d)\<close>

definition truthy :: "json \<Rightarrow> bool" where
  "truthy j =
     (case j of
        JNull \<Rightarrow> False
      | JBool b \<Rightarrow> b
      | JNum r \<Rightarrow> r \<noteq> 0
      | JStr s \<Rightarrow> s \<noteq> []
      | _ \<Rightarrow> True)"

definition property_of :: "json \<Rightarrow> string \<Rightarrow> json option" where
  \<comment> \<open>\<^verbatim>\<open>j[k]\<close> for a \<open>j\<close> that is not \<^verbatim>\<open>null\<close> and a \<open>k\<close> that no prototype defines;
      \<open>None\<close> is \<^verbatim>\<open>undefined\<close>\<close>
  "property_of j k = (case j of JObj kvs \<Rightarrow> map_of kvs k | _ \<Rightarrow> None)"

definition includesText :: "json \<Rightarrow> string \<Rightarrow> bool option" where
  \<comment> \<open>\<^verbatim>\<open>j.includes(t)\<close>\<close>
  "includesText j t =
     (case j of
        JStr s \<Rightarrow> Some (includes_str s t)
      | JArr xs \<Rightarrow> Some (JStr t \<in> set xs)
      | _ \<Rightarrow> None)"

definition classicBanner :: "json \<Rightarrow> json option option" where
  \<comment> \<open>the test of the first branch: \<open>Some (Some url)\<close> when it holds, \<open>Some None\<close> when not\<close>
  "classicBanner parsed =
     (if property_of parsed ''background_background'' = Some (JStr ''classic'') then
        (case property_of parsed ''background_image'' of
           None \<Rightarrow> Some None
         | Some picture \<Rightarrow>
             if \<not> truthy picture then Some None
             else
               (case property_of picture ''url'' of
                  None \<Rightarrow> Some None
                | Some url \<Rightarrow>
                    if \<not> truthy url then Some None
                    else map_option (\<lambda>found. if found then Some url else None)
                           (includesText url ''about-banner'')))
      else Some None)"

fun slideProbes :: "json list \<Rightarrow> trace_event list" where
  "slideProbes [] = []"
| "slideProbes (item # items) =
     (if \<not> truthy item then slideProbes items
      else
        (case property_of item ''url'' of
           None \<Rightarrow> slideProbes items
         | Some url \<Rightarrow>
             if \<not> truthy url then slideProbes items
             else
               (case includesText url ''/assets/'' of
                  None \<Rightarrow> []
                | Some inAssets \<Rightarrow>
                    if inAssets \<or> includesText url ''alluredigital.net'' = Some True
                       \<or> includesText url ''rimalweb.net'' = Some True
                    then SlideProbe url # slideProbes items
                    else slideProbes items)))"

definition watchSlides :: "platform \<Rightarrow> node \<Rightarrow> trace_event list" where
  "watchSlides P el =
     (case getAttribute (attributesOf el) ''data-settings'' of
        None \<Rightarrow> []
      | Some settings \<Rightarrow>
          if settings \<noteq> [] \<and> includes_str settings ''background_slideshow_gallery'' then
            (case parseJSON P (decodeSettings settings) of
               None \<Rightarrow> []
             | Some JNull \<Rightarrow> []
             | Some parsed \<Rightarrow>
                 (case classicBanner parsed of
                    None \<Rightarrow> []
                  | Some (Some url) \<Rightarrow>
                      (case url of
                         JStr s \<Rightarrow> [StaticBackground (fixAssetUrl (newURL P) s)]
                       | _ \<Rightarrow> [])
                  | Some None \<Rightarrow>
                      (case property_of parsed ''background_slideshow_gallery'' of
                         Some (JArr items) \<Rightarrow> slideProbes items
                       | _ \<Rightarrow> [])))
          else [])"

definition fixups :: "platform \<Rightarrow> node list \<Rightarrow> trace_event list" where
  "fixups P ns =
     concat (map watchImage (filter isImgWithSrc (map snd (descendants [] ns))))
     @ concat (map (watchBackground ns) (pathsWhere isBackgroundHolder ns))
     @ concat (map (watchSlides P)
         (filter (\<lambda>n. hasAttribute (attributesOf n) ''data-settings'') (map snd (descendants [] ns))))"

subsection \<open>The effect as a whole\<close>

text \<open>
  \<^verbatim>\<open>doc.querySelectorAll('script')\<close> reads the parsed document after the loops
  have changed its body. The result of the effect is its trace, or \<open>None\<close> when
  an exception ends it.
\<close>

definition isScript :: "node \<Rightarrow> bool" where
  \<comment> \<open>\<^verbatim>\<open>script\<close>\<close>
  "isScript n = (localName (tagOf n) = ''script'')"

definition signal :: "injection \<Rightarrow> trace_event" where
  "signal final = (if awaited final \<noteq> [] then AwaitScripts (length (awaited final)) else ReadyTimer 100)"

definition effect :: "platform \<Rightarrow> bool \<Rightarrow> string list \<Rightarrow> string list \<Rightarrow> string \<Rightarrow> trace_event list option" where
  "effect P mounted sheets loaded html =
     (if \<not> mounted \<or> html = [] then Some []
      else
        (let doc = parseFromString P html in
         case (case headChildren doc of
                 None \<Rightarrow> Some ([], sheets)
               | Some kids \<Rightarrow> injectHead P sheets kids) of
           None \<Rightarrow> None
         | Some injected \<Rightarrow>
             (case bodyChildren doc of
                None \<Rightarrow> Some (fst injected)
              | Some kids \<Rightarrow>
                  (case adoptBody P (bodyAttributes doc) of
                     None \<Rightarrow> None
                   | Some adopted \<Rightarrow>
                       (case prepareBody P doc kids of
                          None \<Rightarrow> None
                        | Some (swaps, body, cleanedHtml) \<Rightarrow>
                            (case injectScripts (newURL P) (validName P)
                                    \<lparr>appended = [], awaited = [], scriptsLoaded = loaded\<rparr>
                                    (filter isScript
                                       (map snd (descendants []
                                          ((case headChildren doc of None \<Rightarrow> [] | Some hs \<Rightarrow> hs) @ body)))) of
                               None \<Rightarrow> None
                             | Some final \<Rightarrow>
                                 Some (fst injected @ adopted @ swaps @ [InnerHTML cleanedHtml]
                                       @ fixups P (parseHTML P cleanedHtml)
                                       @ map HeadAppend (appended final) @ [signal final])))))))"

text \<open>The phase of an event, by its kind alone.\<close>

definition headInjection :: "trace_event \<Rightarrow> bool" where
  "headInjection ev =
     (case ev of
        HeadAppend n \<Rightarrow> localName (tagOf n) \<in> set [''link'', ''style'', ''meta'', ''title'']
      | _ \<Rightarrow> False)"

definition bodyRewrite :: "trace_event \<Rightarrow> bool" where
  "bodyRewrite ev =
     (case ev of
        ContainerClass c \<Rightarrow> True
      | ContainerAttribute k v \<Rightarrow> True
      | LogoSwap p \<Rightarrow> True
      | _ \<Rightarrow> False)"

definition fixup :: "trace_event \<Rightarrow> bool" where
  "fixup ev =
     (case ev of
        ImageHandler src \<Rightarrow> True
      | ImageProbe src \<Rightarrow> True
      | BackgroundProbe url \<Rightarrow> True
      | StaticBackground url \<Rightarrow> True
      | SlideProbe url \<Rightarrow> True
      | _ \<Rightarrow> False)"

definition scriptAppend :: "trace_event \<Rightarrow> bool" where
  "scriptAppend ev = (case ev of HeadAppend n \<Rightarrow> tagOf n = ''SCRIPT'' | _ \<Rightarrow> False)"

definition readinessSignal :: "trace_event \<Rightarrow> bool" where
  "readinessSignal ev = (case ev of AwaitScripts n \<Rightarrow> 0 < n | ReadyTimer ms \<Rightarrow> ms = 100 | _ \<Rightarrow> False)"

section \<open>Properties of the asset remap\<close>

lemma startsWith_append: "startsWith (p @ s) p"
  by (simp add: startsWith_def)

lemma split_chr_nonempty: "split_chr d s \<noteq> []"
  by (induction s) (auto split: list.splits)

lemma split_chr_all_empty:
  "(\<forall>p \<in> set (split_chr d s). p = []) \<longleftrightarrow> (\<forall>c \<in> set s. c = d)"
proof (induction s)
  case Nil
  show ?case by simp
next
  case (Cons c cs)
  show ?case
  proof (cases "c = d")
    case True
    with Cons show ?thesis by simp
  next
    case False
    then show ?thesis
      using split_chr_nonempty[of d cs] by (auto split: list.splits)
  qed
qed

lemma no_segments_iff:
  "length (filter (\<lambda>p. p \<noteq> []) (split_chr CHR ''/'' s)) = 0 \<longleftrightarrow> list_all (\<lambda>c. c = CHR ''/'') s"
  using split_chr_all_empty[of "CHR ''/''" s]
  by (auto simp: filter_empty_conv list_all_iff)

lemma hd_split_chr_free: "d \<notin> set (hd (split_chr d s))"
  using split_chr_nonempty[of d]
  by (induction s) (auto split: list.splits)

lemma hd_split_chr_subset: "set (hd (split_chr d s)) \<subseteq> set s"
  using split_chr_nonempty[of d]
  by (induction s) (auto split: list.splits)

lemma branches_agree:
  "litespeedBranch urlObj = otherBranch urlObj" "uploadsBranch urlObj = otherBranch urlObj"
  by (simp_all add: litespeedBranch_def uploadsBranch_def otherBranch_def)

lemma getAssetFilename_flat:
  assumes "getAssetFilename U u = Some f"
  shows "f \<noteq> [] \<and> CHR ''/'' \<notin> set f \<and> CHR ''?'' \<notin> set f"
proof -
  from assms obtain urlObj where f: "otherBranch urlObj = Some f"
    by (auto simp: getAssetFilename_def Let_def branches_agree split: option.splits if_splits)
  define g where "g = slashesToUnderscores (replaceFirst (hostname urlObj) ''www.'' [] @ pathname urlObj)"
  from f have fg: "f = beforeQuery g" and ne: "f \<noteq> []"
    by (auto simp: otherBranch_def orNull_def g_def Let_def split: if_splits)
  have "CHR ''/'' \<notin> set g"
    by (auto simp: g_def slashesToUnderscores_def)
  then have "CHR ''/'' \<notin> set f"
    using hd_split_chr_subset[of "CHR ''?''" g] by (auto simp: fg beforeQuery_def)
  moreover have "CHR ''?'' \<notin> set f"
    using hd_split_chr_free[of "CHR ''?''" g] by (simp add: fg beforeQuery_def)
  ultimately show ?thesis using ne by simp
qed

text \<open>
  C1 (as amended). For every input, \<open>getAssetFilename\<close> returns null when the URL
  constructor throws or when the path name has no non-empty segment (it consists
  of slashes only); otherwise it returns the host name with its first \<^verbatim>\<open>www.\<close>
  removed, followed by the path name, with every slash replaced by an underscore
  and cut before the first question mark (null if that leaves nothing). The
  function has a value in each case: it never throws.
\<close>

theorem getAssetFilename_spec:
  "(U u (Some assetBase) = None \<longrightarrow> getAssetFilename U u = None) \<and>
   (\<forall>urlObj. U u (Some assetBase) = Some urlObj \<longrightarrow>
      (if list_all (\<lambda>c. c = CHR ''/'') (pathname urlObj) then getAssetFilename U u = None
       else getAssetFilename U u =
              orNull (beforeQuery (slashesToUnderscores
                (replaceFirst (hostname urlObj) ''www.'' [] @ pathname urlObj)))))"
  using no_segments_iff
  by (auto simp: getAssetFilename_def Let_def branches_agree otherBranch_def)

theorem getAssetFilename_spec_witness:
  "sampleURL ''https://www.alluredigital.net/wp-content/litespeed/css/ab12.css?ver=6'' (Some assetBase)
     = Some \<lparr>hostname = ''www.alluredigital.net'', pathname = ''/wp-content/litespeed/css/ab12.css''\<rparr> \<and>
   getAssetFilename sampleURL ''https://www.alluredigital.net/wp-content/litespeed/css/ab12.css?ver=6''
     = Some ''alluredigital.net_wp-content_litespeed_css_ab12.css'' \<and>
   sampleURL ''http://'' (Some assetBase) = None \<and>
   getAssetFilename sampleURL ''http://'' = None"
  using getAssetFilename_spec[of sampleURL "''https://www.alluredigital.net/wp-content/litespeed/css/ab12.css?ver=6''"]
        getAssetFilename_spec[of sampleURL "''http://''"]
  by (simp add: sampleURL_def assetBase_def orNull_def beforeQuery_def slashesToUnderscores_def startsWith_def)

theorem getAssetFilename_leading_www_counterexample:
  "sampleURL ''https://cdn.www.example.com/a.css'' (Some assetBase)
     = Some \<lparr>hostname = ''cdn.www.example.com'', pathname = ''/a.css''\<rparr> \<and>
   getAssetFilename sampleURL ''https://cdn.www.example.com/a.css'' = Some ''cdn.example.com_a.css'' \<and>
   claimedFilename \<lparr>hostname = ''cdn.www.example.com'', pathname = ''/a.css''\<rparr> = ''cdn.www.example.com_a.css'' \<and>
   getAssetFilename sampleURL ''https://cdn.www.example.com/a.css''
     \<noteq> Some (claimedFilename \<lparr>hostname = ''cdn.www.example.com'', pathname = ''/a.css''\<rparr>)"
  by (simp add: sampleURL_def assetBase_def getAssetFilename_def otherBranch_def orNull_def
      beforeQuery_def slashesToUnderscores_def startsWith_def claimedFilename_def removeLeadingWww_def)

text \<open>
  C8 (as amended). The litespeed branch, the uploads branch and the fallthrough
  of \<open>getAssetFilename\<close> compute the same result for every URL object, so the
  function equals the single rule \<open>singleRule\<close> on every input: null when the
  constructor throws or the path name has no non-empty segment, and otherwise
  the host name without its first \<^verbatim>\<open>www.\<close>, followed by the path name, with
  slashes replaced by underscores and the query suffix cut off.
\<close>

theorem getAssetFilename_single_rule:
  "litespeedBranch urlObj = otherBranch urlObj \<and>
   uploadsBranch urlObj = otherBranch urlObj \<and>
   getAssetFilename U u = singleRule U u"
proof -
  have "getAssetFilename U u = singleRule U u"
  proof (cases "U u (Some assetBase)")
    case None
    then show ?thesis by (simp add: getAssetFilename_def singleRule_def)
  next
    case (Some urlObj)
    then show ?thesis
      using no_segments_iff[of "pathname urlObj"]
      by (simp add: getAssetFilename_def singleRule_def Let_def branches_agree otherBranch_def)
  qed
  then show ?thesis by (simp add: branches_agree)
qed

theorem getAssetFilename_single_rule_witness:
  "getAssetFilename sampleURL ''https://alluredigital.net/wp-content/uploads/2022/12/about-banner-300x200.png''
     = Some ''alluredigital.net_wp-content_uploads_2022_12_about-banner-300x200.png'' \<and>
   getAssetFilename sampleURL ''https://alluredigital.net/'' = None"
  using getAssetFilename_single_rule[of _ sampleURL
          "''https://alluredigital.net/wp-content/uploads/2022/12/about-banner-300x200.png''"]
        getAssetFilename_single_rule[of _ sampleURL "''https://alluredigital.net/''"]
  by (simp add: singleRule_def sampleURL_def assetBase_def orNull_def beforeQuery_def
      slashesToUnderscores_def startsWith_def)

theorem getAssetFilename_uploads_www_counterexample:
  "sampleURL ''https://static.www.example.com/wp-content/uploads/logo.png'' (Some assetBase)
     = Some \<lparr>hostname = ''static.www.example.com'', pathname = ''/wp-content/uploads/logo.png''\<rparr> \<and>
   getAssetFilename sampleURL ''https://static.www.example.com/wp-content/uploads/logo.png''
     = Some ''static.example.com_wp-content_uploads_logo.png'' \<and>
   getAssetFilename sampleURL ''https://static.www.example.com/wp-content/uploads/logo.png''
     \<noteq> Some (claimedFilename
          \<lparr>hostname = ''static.www.example.com'', pathname = ''/wp-content/uploads/logo.png''\<rparr>)"
  by (simp add: sampleURL_def assetBase_def getAssetFilename_def uploadsBranch_def orNull_def
      beforeQuery_def slashesToUnderscores_def startsWith_def claimedFilename_def removeLeadingWww_def)

lemma fixAssetUrl_shape:
  "fixAssetUrl U u = u \<or> startsWith (fixAssetUrl U u) ''/assets/''"
  unfolding fixAssetUrl_def using startsWith_append[of "''/assets/''"]
  by (auto split: option.splits)

lemma fixAssetUrl_fixed:
  "startsWith u ''/assets/'' \<or> startsWith u ''data:'' \<Longrightarrow> fixAssetUrl U u = u"
  by (auto simp: fixAssetUrl_def)

text \<open>
  C9. \<open>fixAssetUrl\<close> is idempotent; every value it produces either equals its
  input or starts with \<^verbatim>\<open>/assets/\<close>; and a string that starts with
  \<^verbatim>\<open>/assets/\<close> or \<^verbatim>\<open>data:\<close> is returned unchanged.
\<close>

theorem fixAssetUrl_idempotent:
  "fixAssetUrl U (fixAssetUrl U u) = fixAssetUrl U u \<and>
   (fixAssetUrl U u = u \<or> startsWith (fixAssetUrl U u) ''/assets/'') \<and>
   (startsWith u ''/assets/'' \<or> startsWith u ''data:'' \<longrightarrow> fixAssetUrl U u = u)"
  using fixAssetUrl_shape[of U u] fixAssetUrl_fixed[of "fixAssetUrl U u" U] fixAssetUrl_fixed[of u U]
  by auto

theorem fixAssetUrl_idempotent_witness:
  "fixAssetUrl sampleURL ''https://alluredigital.net/wp-content/uploads/2022/12/about-banner-300x200.png''
     = ''/assets/alluredigital.net_wp-content_uploads_2022_12_about-banner.png'' \<and>
   fixAssetUrl sampleURL ''/assets/alluredigital.net_wp-content_uploads_2022_12_about-banner.png''
     = ''/assets/alluredigital.net_wp-content_uploads_2022_12_about-banner.png'' \<and>
   startsWith ''data:image/png;base64,AAAA'' ''data:'' \<and>
   fixAssetUrl sampleURL ''data:image/png;base64,AAAA'' = ''data:image/png;base64,AAAA''"
proof -
  have f: "getAssetFilename sampleURL ''https://alluredigital.net/wp-content/uploads/2022/12/about-banner-300x200.png''
     = Some ''alluredigital.net_wp-content_uploads_2022_12_about-banner-300x200.png''"
    by (simp add: getAssetFilename_def uploadsBranch_def sampleURL_def assetBase_def
        orNull_def beforeQuery_def slashesToUnderscores_def startsWith_def)
  have st: "stripSizeSuffix ''alluredigital.net_wp-content_uploads_2022_12_about-banner-300x200.png''
     = ''alluredigital.net_wp-content_uploads_2022_12_about-banner.png''"
    by code_simp
  have a: "fixAssetUrl sampleURL ''https://alluredigital.net/wp-content/uploads/2022/12/about-banner-300x200.png''
     = ''/assets/alluredigital.net_wp-content_uploads_2022_12_about-banner.png''"
    by (simp add: fixAssetUrl_def f st startsWith_def)
  have b: "startsWith ''data:image/png;base64,AAAA'' ''data:''"
    by (simp add: startsWith_def)
  show ?thesis
    using fixAssetUrl_idempotent[of sampleURL
            "''https://alluredigital.net/wp-content/uploads/2022/12/about-banner-300x200.png''"]
          fixAssetUrl_idempotent[of sampleURL "''data:image/png;base64,AAAA''"] a b
    by simp
qed

section \<open>Properties of the anchor loop\<close>

lemma routeMap_identity: "\<forall>(path, route) \<in> set routeMap. route = path"
  by (simp add: routeMap_def)

lemma routeMap_get_Own: "routeMap_get path = Own route \<Longrightarrow> route = path \<and> route \<noteq> []"
  by (auto simp: routeMap_get_def routeMap_def split: option.splits if_splits)

lemma routeMap_get_Inherited: "routeMap_get path = Inherited k \<Longrightarrow> path \<in> set objectPrototypeKeys"
  by (auto simp: routeMap_get_def split: option.splits if_splits)

lemma trimTrailingSlash_empty: "trimTrailingSlash path = [] \<longleftrightarrow> path = []"
proof
  assume e: "trimTrailingSlash path = []"
  show "path = []"
  proof (rule ccontr)
    assume ne: "path \<noteq> []"
    then obtain xs x where p: "path = xs @ [x]" by (metis rev_exhaust)
    with e have "endsWith path ''/''" "path \<noteq> ''/''" "xs = []"
      by (auto simp: trimTrailingSlash_def split: if_splits)
    with p show False by (auto simp: endsWith_def)
  qed
qed (simp add: trimTrailingSlash_def endsWith_def)

lemma fixAnchor_parsed:
  assumes "a_href a = Href h" "\<not> startsWith h ''tel:''" "\<not> startsWith h ''mailto:''"
    and "includes_str h ''alluredigital.net''"
    and "U h None = Some urlObj"
    and "trimTrailingSlash (pathname urlObj) \<notin> set objectPrototypeKeys"
  shows "a_href (fixAnchor U a) = claimedHref urlObj"
proof -
  let ?path = "trimTrailingSlash (pathname urlObj)"
  from assms(4) have hne: "h \<noteq> []" by (cases h) auto
  show ?thesis
  proof (cases "routeMap_get ?path")
    case Undefined
    then show ?thesis
      using assms hne trimTrailingSlash_empty[of "pathname urlObj"]
      by (auto simp: fixAnchor_def claimedHref_def Let_def startsWith_def)
  next
    case (Own route)
    then show ?thesis
      using assms hne routeMap_get_Own[OF Own] trimTrailingSlash_empty[of "pathname urlObj"]
      by (auto simp: fixAnchor_def claimedHref_def Let_def)
  next
    case (Inherited k)
    then show ?thesis using assms(6) routeMap_get_Inherited[OF Inherited] by simp
  qed
qed

lemma fixAnchor_unparsed:
  assumes "a_href a = Href h" "\<not> startsWith h ''tel:''" "\<not> startsWith h ''mailto:''"
    and "includes_str h ''alluredigital.net''"
    and "U h None = None"
    and "pathMatch h = Some g" "g \<noteq> []"
  shows "a_href (fixAnchor U a) = Href (trimTrailingSlash g)"
proof -
  from assms(4) have hne: "h \<noteq> []" by (cases h) auto
  show ?thesis
    using assms hne trimTrailingSlash_empty[of g]
    by (auto simp: fixAnchor_def Let_def)
qed

lemma afterFirst_includes: "includes_str s p \<Longrightarrow> \<exists>r. afterFirst s p = Some r"
  by (induction s) (auto simp: startsWith_def)

text \<open>
  C3 (as amended). Take an anchor whose \<^verbatim>\<open>href\<close> does not start with \<^verbatim>\<open>tel:\<close>
  or \<^verbatim>\<open>mailto:\<close> and contains \<^verbatim>\<open>alluredigital.net\<close>. If the \<^verbatim>\<open>href\<close> parses as
  an absolute URL, and the path name without its trailing slash is not a name
  that \<^verbatim>\<open>Object.prototype\<close> defines, the rewritten \<^verbatim>\<open>href\<close> is that path name
  with one trailing slash removed, \<^verbatim>\<open>/\<close> when the path name is \<^verbatim>\<open>/\<close> or empty;
  query and fragment are not part of it. If parsing fails, the text between the
  first \<^verbatim>\<open>alluredigital.net\<close> and the first \<^verbatim>\<open>?\<close> or \<^verbatim>\<open>#\<close> is found, and when it
  is not empty the rewritten \<^verbatim>\<open>href\<close> is that text with one trailing slash
  removed. Every entry of \<^verbatim>\<open>routeMap\<close> maps a path to itself, so the lookup does
  not change the result.
\<close>

theorem fixAnchor_internal_link:
  assumes "a_href a = Href h" "\<not> startsWith h ''tel:''" "\<not> startsWith h ''mailto:''"
    and "includes_str h ''alluredigital.net''"
  shows "(\<forall>urlObj. U h None = Some urlObj \<and>
            trimTrailingSlash (pathname urlObj) \<notin> set objectPrototypeKeys \<longrightarrow>
            a_href (fixAnchor U a) =
              Href (if pathname urlObj = [] then ''/'' else trimTrailingSlash (pathname urlObj))) \<and>
         (U h None = None \<longrightarrow>
            (\<exists>g. pathMatch h = Some g \<and>
                 (g \<noteq> [] \<longrightarrow> a_href (fixAnchor U a) = Href (trimTrailingSlash g)))) \<and>
         (\<forall>(path, route) \<in> set routeMap. route = path)"
proof (intro conjI allI impI)
  fix urlObj
  assume "U h None = Some urlObj \<and> trimTrailingSlash (pathname urlObj) \<notin> set objectPrototypeKeys"
  then show "a_href (fixAnchor U a) =
      Href (if pathname urlObj = [] then ''/'' else trimTrailingSlash (pathname urlObj))"
    using fixAnchor_parsed[of a h U urlObj] assms by (simp add: claimedHref_def)
next
  assume n: "U h None = None"
  from afterFirst_includes[OF assms(4)] obtain g where g: "pathMatch h = Some g"
    by (auto simp: pathMatch_def)
  then show "\<exists>g. pathMatch h = Some g \<and>
      (g \<noteq> [] \<longrightarrow> a_href (fixAnchor U a) = Href (trimTrailingSlash g))"
    using fixAnchor_unparsed[of a h U g] assms n by auto
next
  show "\<forall>(path, route) \<in> set routeMap. route = path" by (rule routeMap_identity)
qed

theorem fixAnchor_internal_link_witness:
  "a_href (fixAnchor sampleURL
      \<lparr>a_href = Href ''https://alluredigital.net/contact-us/?ref=nav#top'', a_style = None\<rparr>)
     = Href ''/contact-us'' \<and>
   sampleURL ''//alluredigital.net/blog/post/?x=1'' None = None \<and>
   a_href (fixAnchor sampleURL
      \<lparr>a_href = Href ''//alluredigital.net/blog/post/?x=1'', a_style = None\<rparr>)
     = Href ''/blog/post''"
proof -
  let ?h1 = "''https://alluredigital.net/contact-us/?ref=nav#top''"
  let ?h2 = "''//alluredigital.net/blog/post/?x=1''"
  have i1: "includes_str ?h1 ''alluredigital.net''" and i2: "includes_str ?h2 ''alluredigital.net''"
    by (simp_all add: startsWith_def)
  have n1: "\<not> startsWith ?h1 ''tel:''" "\<not> startsWith ?h1 ''mailto:''"
    and n2: "\<not> startsWith ?h2 ''tel:''" "\<not> startsWith ?h2 ''mailto:''"
    by (simp_all add: startsWith_def)
  have u1: "sampleURL ?h1 None = Some \<lparr>hostname = ''alluredigital.net'', pathname = ''/contact-us/''\<rparr>"
    and u2: "sampleURL ?h2 None = None"
    by (simp_all add: sampleURL_def)
  have t1: "trimTrailingSlash ''/contact-us/'' = ''/contact-us''"
    and t2: "trimTrailingSlash ''/blog/post/'' = ''/blog/post''"
    by (simp_all add: trimTrailingSlash_def endsWith_def)
  have p2: "pathMatch ?h2 = Some ''/blog/post/''"
    by (simp add: pathMatch_def startsWith_def)
  have k: "''/contact-us'' \<notin> set objectPrototypeKeys"
    by (simp add: objectPrototypeKeys_def)
  show ?thesis
    using fixAnchor_internal_link[of "\<lparr>a_href = Href ?h1, a_style = None\<rparr>" ?h1 sampleURL, OF _ n1 i1]
          fixAnchor_internal_link[of "\<lparr>a_href = Href ?h2, a_style = None\<rparr>" ?h2 sampleURL, OF _ n2 i2]
          u1 u2 t1 t2 p2 k
    by simp
qed

theorem fixAnchor_mailto_counterexample:
  "includes_str ''mailto:info@alluredigital.net'' ''alluredigital.net'' \<and>
   sampleURL ''mailto:info@alluredigital.net'' None
     = Some \<lparr>hostname = [], pathname = ''info@alluredigital.net''\<rparr> \<and>
   a_href (fixAnchor sampleURL \<lparr>a_href = Href ''mailto:info@alluredigital.net'', a_style = None\<rparr>)
     = NoHref \<and>
   a_href (fixAnchor sampleURL \<lparr>a_href = Href ''mailto:info@alluredigital.net'', a_style = None\<rparr>)
     \<noteq> claimedHref \<lparr>hostname = [], pathname = ''info@alluredigital.net''\<rparr>"
  by (simp add: fixAnchor_def sampleURL_def startsWith_def claimedHref_def)

section \<open>Properties of the route handlers\<close>

text \<open>
  C6 (as amended). Every route handler reads one fixed page of the corpus and
  hands a string to \<open>PageRenderer\<close>. For every handler but two the string is
  the content of the file, unmodified. \<open>GoogleAdsManagement\<close> and the
  \<open>ShopifyDevelopment\<close> handler that retargets the Bricks Builder page first
  apply their fixed chains of case-insensitive replacements to the content.
\<close>

theorem routes_pass_through:
  "(\<forall>(route, name) \<in> set plainRoutes.
      \<forall>html. readPage name = Some html \<longrightarrow> route readPage = Some (PageRendererEl html)) \<and>
   (\<forall>html. readPage ''page_0011.html'' = Some html \<longrightarrow>
      GoogleAdsManagement readPage = Some (PageRendererEl (googleAdsContent html))) \<and>
   (\<forall>html. readPage ''page_0015.html'' = Some html \<longrightarrow>
      ShopifyDevelopment readPage = Some (PageRendererEl (shopifyContent html)))"
  by (simp add: plainRoutes_def passThrough_def Home_def BlogPost_0028_def BlogPost_0029_def
      BlogPost_0031_def TechnicalSEO_def ShopifyDevelopment_plain_def SocialMediaManagement_0016_def
      SocialMediaManagement_0002_def WorkCase_0046_def WorkCase_0045_def ContactUs_def Careers_def
      CRMDevelopment_def AppianDevelopment_def LocalSEO_def WordPressDevelopment_def Blog_def
      GoogleAdsManagement_def ShopifyDevelopment_def)

theorem routes_pass_through_witness:
  "samplePages ''page_0004.html'' = Some ''<h1>Allure Digital</h1>'' \<and>
   Home samplePages = Some (PageRendererEl ''<h1>Allure Digital</h1>'') \<and>
   AppianDevelopment samplePages = Some (PageRendererEl ''<h1>Allure Digital</h1>'')"
proof -
  have r: "samplePages ''page_0004.html'' = Some ''<h1>Allure Digital</h1>''"
    by (simp add: samplePages_def)
  have m: "(Home, ''page_0004.html'') \<in> set plainRoutes"
          "(AppianDevelopment, ''page_0004.html'') \<in> set plainRoutes"
    by (simp_all add: plainRoutes_def)
  from routes_pass_through[of samplePages] m r show ?thesis by blast
qed

lemma GoogleAdsManagement_sample:
  "GoogleAdsManagement samplePages = Some (PageRendererEl ''<b>Google Ads</b>'')"
  by code_simp

theorem GoogleAdsManagement_counterexample:
  "samplePages ''page_0011.html'' = Some ''<b>PPC</b>'' \<and>
   GoogleAdsManagement samplePages = Some (PageRendererEl ''<b>Google Ads</b>'') \<and>
   GoogleAdsManagement samplePages \<noteq> Some (PageRendererEl ''<b>PPC</b>'')"
proof -
  have "samplePages ''page_0011.html'' = Some ''<b>PPC</b>''"
    by (simp add: samplePages_def)
  then show ?thesis by (simp add: GoogleAdsManagement_sample)
qed

section \<open>Contact information and \<^verbatim>\<open>data-settings\<close> at concrete inputs\<close>

lemma dropWhile_snoc: "\<not> P c \<Longrightarrow> dropWhile P (xs @ [c]) = dropWhile P xs @ [c]"
  by (induction xs) simp_all

lemma trim_keeps_end: "\<not> isSpace c \<Longrightarrow> trim (xs @ [c]) = dropWhile isSpace (xs @ [c])"
  by (simp add: trim_def dropWhile_snoc)

lemma contact_style:
  "\<exists>st. trim (cur @ '' pointer-events: none; cursor: default;'') = st @ ''pointer-events: none; cursor: default;''"
proof -
  let ?tail = "''pointer-events: none; cursor: default;''"
  have not_space: "\<not> isSpace CHR '';''" by (simp add: isSpace_def)
  have "trim ((cur @ '' pointer-events: none; cursor: default'') @ '';'')
         = dropWhile isSpace ((cur @ '' pointer-events: none; cursor: default'') @ '';'')"
    using not_space by (rule trim_keeps_end)
  then have t: "trim (cur @ CHR '' '' # ?tail) = dropWhile isSpace (cur @ CHR '' '' # ?tail)"
    by simp
  have "\<exists>st. dropWhile isSpace (cur @ CHR '' '' # ?tail) = st @ ?tail"
  proof (cases "\<forall>c \<in> set cur. isSpace c")
    case True
    then have "dropWhile isSpace (cur @ CHR '' '' # ?tail) = dropWhile isSpace (CHR '' '' # ?tail)"
      by (simp add: dropWhile_append2)
    also have "\<dots> = ?tail" by (simp add: isSpace_def)
    finally show ?thesis by simp
  next
    case False
    then obtain x where "x \<in> set cur" "\<not> isSpace x" by blast
    then have "dropWhile isSpace (cur @ CHR '' '' # ?tail) = dropWhile isSpace cur @ CHR '' '' # ?tail"
      by (rule dropWhile_append1)
    then have "dropWhile isSpace (cur @ CHR '' '' # ?tail) = (dropWhile isSpace cur @ '' '') @ ?tail"
      by simp
    then show ?thesis by blast
  qed
  with t show ?thesis by simp
qed

lemma fixAnchor_contact_link:
  assumes "a_href a = Href h" "startsWith h ''tel:'' \<or> startsWith h ''mailto:''"
  shows "a_href (fixAnchor U a) = NoHref \<and>
         (\<exists>st. a_style (fixAnchor U a) = Some (st @ ''pointer-events: none; cursor: default;''))"
proof -
  from assms(2) have hne: "h \<noteq> []" by (auto simp: startsWith_def)
  define cur where "cur = (case a_style a of None \<Rightarrow> [] | Some st \<Rightarrow> st)"
  have f: "fixAnchor U a = a\<lparr>a_href := NoHref,
               a_style := Some (trim (cur @ '' pointer-events: none; cursor: default;''))\<rparr>"
    using assms hne by (simp add: fixAnchor_def Let_def cur_def)
  show ?thesis using contact_style[of cur] by (simp add: f)
qed

text \<open>
  C4, at an input where the pattern is nested. The body text
  \<^verbatim>\<open>212-301212-301-7615-7615\<close> passes through \<open>removeContactInfo\<close> and leaves
  the phone number \<^verbatim>\<open>212-301-7615\<close> in the produced markup: each pattern is
  deleted in one pass, and deleting the inner number joins the two halves of
  the outer one.
\<close>

theorem removeContactInfo_nested_phone:
  "sampleParseHTML ''212-301-7615'' = [Text ''212-301-7615''] \<and>
   sampleSerializeHTML [Text ''212-301-7615''] = ''212-301-7615'' \<and>
   removeFromMarkup ''212-301212-301-7615-7615'' = ''212-301-7615'' \<and>
   removeContactInfo sampleParseHTML sampleSerializeHTML ''212-301212-301-7615-7615'' = ''212-301-7615''"
  by code_simp

text \<open>
  C10, at an attribute whose value is not JSON (the closing brace is missing).
  The fallback pattern runs up to the next double quote, and the raw value has
  none, so the match takes the rest of the value with it: the second property's
  \<^verbatim>\<open>x/y\<close> comes out as \<^verbatim>\<open>x_y\<close>.
\<close>

theorem rewriteDataSettings_invalid_json:
  \<open>sampleJSONparse ''{"u":"https://alluredigital.net/a.png","v":"x/y"'' = None \<and>
   decodeEntities ''{&quot;u&quot;:&quot;https://alluredigital.net/a.png&quot;,&quot;v&quot;:&quot;x/y&quot;''
     = ''{"u":"https://alluredigital.net/a.png","v":"x/y"'' \<and>
   rewriteDataSettings sampleURL sampleJSONparse sampleJSONstringify
     ''<div data-settings="{&quot;u&quot;:&quot;https://alluredigital.net/a.png&quot;,&quot;v&quot;:&quot;x/y&quot;">''
     = ''<div data-settings="{&quot;u&quot;:&quot;/assets/alluredigital.net_a.png&quot;,&quot;v&quot;:&quot;x_y&quot;">''\<close>
  by code_simp

lemma settingsCallback_null:
  "parse (decodeEntities jsonStr) = Some JNull \<Longrightarrow>
   settingsCallback U parse stringify match jsonStr = match"
  by (simp add: settingsCallback_def swapSlideshow_def)

section \<open>Properties of the branding replacement\<close>


lemma startsWithCI_length: "startsWithCI s p \<Longrightarrow> length p \<le> length s"
  by (induction s p rule: startsWithCI.induct) (simp_all split: if_splits)



lemma replaceAllWordCI_Cons:
  "replaceAllWordCI prev (c # cs) p r =
     (if wordAt prev (c # cs) p
      then r @ replaceAllWordCI (Some ((c # cs) ! (length p - 1))) (drop (length p) (c # cs)) p r
      else c # replaceAllWordCI (Some c) cs p r)"
proof (cases "wordAt prev (c # cs) p")
  case True
  then have p: "p \<noteq> []" and sw: "startsWithCI (c # cs) p" by (simp_all add: wordAt_def)
  from sw have len: "length p \<le> length (c # cs)" by (rule startsWithCI_length)
  from p obtain n where n: "length p = Suc n" by (cases p) auto
  with len have "charAt (c # cs) (length p - 1) = Some ((c # cs) ! (length p - 1))"
    by (simp add: charAt_def)
  moreover have "drop (length p - 1) cs = drop (length p) (c # cs)" using n by simp
  ultimately show ?thesis using True by (simp add: wordAt_def charAt_def)
next
  case False
  then show ?thesis by (auto simp: wordAt_def charAt_def)
qed





lemma wordAt_status:
  "(\<And>x. wordBoundary prev x = wordBoundary prev' x) \<Longrightarrow> wordAt prev s p = wordAt prev' s p"
  by (simp add: wordAt_def)


lemma replaceAllWordCI_status:
  "(\<And>x. wordBoundary prev x = wordBoundary prev' x) \<Longrightarrow>
   replaceAllWordCI prev s p r = replaceAllWordCI prev' s p r"
  by (cases s) (simp_all only: replaceAllWordCI.simps(1) replaceAllWordCI_Cons wordAt_status[of prev prev'])




























lemma hasAttribute_fst: "hasAttribute as k \<longleftrightarrow> k \<in> fst ` set as"
  by (simp add: hasAttribute_def map_of_eq_None_iff)

lemma keys_setAttribute: "fst ` set (setAttribute as k v) = insert k (fst ` set as)"
proof (induction as)
  case Nil
  show ?case by simp
next
  case (Cons a as)
  obtain k' v' where "a = (k', v')" by (cases a)
  with Cons show ?case by (cases "k' = k") auto
qed

























































lemma hasAttribute_setAttribute:
  "hasAttribute (setAttribute as k v) k' \<longleftrightarrow> k' = k \<or> hasAttribute as k'"
  by (simp add: hasAttribute_fst keys_setAttribute)

section \<open>Properties of the readiness signal\<close>

lemma ready_inv_init: "ready_inv throws n (signalReadiness n)"
  by (auto simp: ready_inv_def signalReadiness_def)

lemma ready_inv_resolve:
  "ready_inv throws n st \<Longrightarrow> ready_inv throws n (resolvePromise throws i st)"
  unfolding ready_inv_def resolvePromise_def Let_def
  by (cases "i \<in> set (unsettled st)") (auto split: if_splits)

lemma ready_inv_react: "ready_inv throws n st \<Longrightarrow> ready_inv throws n (react throws st ev)"
proof (cases ev)
  case (Elapse d)
  assume "ready_inv throws n st"
  then show ?thesis unfolding ready_inv_def react_def Elapse
    by (auto split: if_splits) 
next
  case (ScriptLoad i)
  assume "ready_inv throws n st"
  then show ?thesis using ready_inv_resolve by (simp add: react_def ScriptLoad)
next
  case (ScriptError i)
  assume "ready_inv throws n st"
  then show ?thesis using ready_inv_resolve by (simp add: react_def ScriptError)
next
  case TimerFires
  assume "ready_inv throws n st"
  then show ?thesis unfolding ready_inv_def react_def TimerFires
    by (auto split: option.splits if_splits)
qed

lemma ready_inv_foldl:
  "ready_inv throws n st \<Longrightarrow> ready_inv throws n (foldl (react throws) st events)"
  by (induction events arbitrary: st) (simp_all add: ready_inv_react)

lemma afterEffect_snoc:
  "afterEffect throws n (events @ [ev]) = react throws (afterEffect throws n events) ev"
  by (simp add: afterEffect_def)

lemma ready_inv_afterEffect: "ready_inv throws n (afterEffect throws n events)"
  unfolding afterEffect_def by (rule ready_inv_foldl) (rule ready_inv_init)

lemma react_now_settled:
  assumes "ready_inv throws n st" "settledAt (react throws st ev) = Some t"
  shows "settledAt st = Some t \<or>
         (unsettled (react throws st ev) = [] \<and> now (react throws st ev) = t)"
proof (cases ev)
  case (Elapse d)
  with assms show ?thesis by (simp add: react_def)
next
  case (ScriptLoad i)
  with assms show ?thesis
    by (auto simp: react_def resolvePromise_def Let_def split: if_splits)
next
  case (ScriptError i)
  with assms show ?thesis
    by (auto simp: react_def resolvePromise_def Let_def split: if_splits)
next
  case TimerFires
  with assms show ?thesis by (auto simp: react_def split: option.splits if_splits)
qed

lemma settled_prefix:
  "settledAt (afterEffect throws n events) = Some t \<Longrightarrow>
   \<exists>es1 es2. events = es1 @ es2 \<and> unsettled (afterEffect throws n es1) = []
      \<and> now (afterEffect throws n es1) = t"
proof (induction events rule: rev_induct)
  case Nil
  then show ?case by (simp add: afterEffect_def signalReadiness_def)
next
  case (snoc ev events)
  let ?st = "afterEffect throws n events"
  from snoc.prems have s: "settledAt (react throws ?st ev) = Some t"
    by (simp add: afterEffect_snoc)
  from react_now_settled[OF ready_inv_afterEffect s]
  show ?case
  proof
    assume "settledAt ?st = Some t"
    from snoc.IH[OF this] obtain es1 es2 where
      "events = es1 @ es2" "unsettled (afterEffect throws n es1) = []"
      "now (afterEffect throws n es1) = t" by blast
    then have "events @ [ev] = es1 @ (es2 @ [ev])" by simp
    with \<open>unsettled (afterEffect throws n es1) = []\<close> \<open>now (afterEffect throws n es1) = t\<close>
    show ?thesis by blast
  next
    assume "unsettled (react throws ?st ev) = [] \<and> now (react throws ?st ev) = t"
    then have "unsettled (afterEffect throws n (events @ [ev])) = []"
      "now (afterEffect throws n (events @ [ev])) = t"
      by (simp_all add: afterEffect_snoc)
    moreover have "events @ [ev] = (events @ [ev]) @ []" by simp
    ultimately show ?thesis by blast
  qed
qed

lemma hasAttribute_copyAttributes:
  "copyAttributes valid as target = Some copied \<Longrightarrow>
   hasAttribute copied k \<longleftrightarrow> hasAttribute target k \<or> k \<in> fst ` set as"
proof (induction as arbitrary: target)
  case Nil
  then show ?case by simp
next
  case (Cons a as)
  obtain k' v' where a: "a = (k', v')" by (cases a)
  from Cons.prems a have "copyAttributes valid as (setAttribute target k' v') = Some copied"
    by (simp split: if_splits)
  from Cons.IH[OF this] show ?case
    using a by (auto simp: hasAttribute_setAttribute)
qed

lemma hasAttribute_reflectFlag:
  "hasAttribute (reflectFlag source f target) k \<longleftrightarrow>
     hasAttribute target k \<or> (k = f \<and> hasAttribute source f)"
  by (auto simp: reflectFlag_def hasAttribute_setAttribute)

lemma injectScript_awaited:
  assumes "injectScript U valid st script = Some st'" "isHtmlScript script"
    and "length (filter hasSrc (appended st)) = length (awaited st)"
  shows "length (filter hasSrc (appended st')) = length (awaited st')"
proof -
  from assms(2) obtain as kids where sc: "script = Element ''SCRIPT'' as kids"
    by (cases script) (auto simp: isHtmlScript_def)
  show ?thesis
  proof (cases "hasAttribute as ''src''")
    case True
    have new: "hasSrc (Element ''SCRIPT'' (reflectFlag as ''defer'' (reflectFlag as ''async'' copied)) [])"
      if "copyAttributes valid (filter (\<lambda>kv. fst kv \<noteq> ''src'') as) [(''src'', newSrc)] = Some copied"
      for copied newSrc
    proof -
      have "hasAttribute [(''src'', newSrc)] ''src''" by (simp add: hasAttribute_def)
      with hasAttribute_copyAttributes[OF that, of "''src''"] have "hasAttribute copied ''src''"
        by simp
      then show ?thesis by (simp add: hasSrc_def hasAttribute_reflectFlag)
    qed
    from assms(1) True sc show ?thesis
      using assms(3) new
      by (auto simp: injectScript_def Let_def split: if_splits option.splits)
  next
    case False
    have old: "\<not> hasSrc (Element ''SCRIPT'' copied [Text t])"
      if "copyAttributes valid as [] = Some copied" for copied t
    proof -
      have "\<not> hasAttribute [] ''src''" by (simp add: hasAttribute_def)
      with hasAttribute_copyAttributes[OF that, of "''src''"] False
      have "\<not> hasAttribute copied ''src''" by (simp add: hasAttribute_fst)
      then show ?thesis by (simp add: hasSrc_def)
    qed
    from assms(1) False sc show ?thesis
      using assms(3) old
      by (auto simp: injectScript_def Let_def split: if_splits option.splits)
  qed
qed

lemma injectScripts_awaited:
  "injectScripts U valid st scripts = Some st' \<Longrightarrow> list_all isHtmlScript scripts \<Longrightarrow>
   length (filter hasSrc (appended st)) = length (awaited st) \<Longrightarrow>
   length (filter hasSrc (appended st')) = length (awaited st')"
proof (induction scripts arbitrary: st)
  case Nil
  then show ?case by simp
next
  case (Cons script scripts)
  from Cons.prems(1) obtain st1 where
    1: "injectScript U valid st script = Some st1" and 2: "injectScripts U valid st1 scripts = Some st'"
    by (auto split: option.splits)
  from Cons.prems(2) have h: "isHtmlScript script" "list_all isHtmlScript scripts" by simp_all
  from injectScript_awaited[OF 1 h(1) Cons.prems(3)] Cons.IH[OF 2 h(2)] show ?case by simp
qed

text \<open>
  C7 (as amended). While \<open>isLoading\<close> holds, the overlay is rendered and the
  container has opacity 0; \<open>isLoading\<close> holds from the mount on. After the
  effect it is cleared only when every promise has been resolved, and then 300
  ms after the last one was (or at once, if the callback that runs when they
  are all resolved throws), and 100 ms after the effect when there is no
  promise. An \<^verbatim>\<open>error\<close> event resolves the promise as a \<^verbatim>\<open>load\<close> event does. The
  loop over the scripts of the document makes one promise for each script with a
  \<^verbatim>\<open>src\<close> attribute that it appends.
\<close>

theorem readiness_signal:
  "(isLoading st \<longrightarrow> overlay (render (isLoading st)) \<and> opacity (render (isLoading st)) = 0) \<and>
   (\<not> isLoading (afterEffect throws n events) \<longrightarrow>
      (\<exists>es1 es2. events = es1 @ es2 \<and> unsettled (afterEffect throws n es1) = [] \<and>
         (if 0 < n
          then throws \<or> now (afterEffect throws n es1) + 300 \<le> now (afterEffect throws n events)
          else 100 \<le> now (afterEffect throws n events)))) \<and>
   react throws st (ScriptError i) = react throws st (ScriptLoad i) \<and>
   (injectScripts U valid \<lparr>appended = [], awaited = [], scriptsLoaded = loaded\<rparr> scripts = Some final
      \<and> list_all isHtmlScript scripts \<longrightarrow>
    length (filter hasSrc (appended final)) = length (awaited final))"
proof (intro conjI impI)
  assume "isLoading st"
  then show "overlay (render (isLoading st))" "opacity (render (isLoading st)) = 0"
    by (simp_all add: render_def)
next
  let ?st = "afterEffect throws n events"
  assume nl: "\<not> isLoading ?st"
  have inv: "ready_inv throws n ?st" by (rule ready_inv_afterEffect)
  show "\<exists>es1 es2. events = es1 @ es2 \<and> unsettled (afterEffect throws n es1) = [] \<and>
         (if 0 < n
          then throws \<or> now (afterEffect throws n es1) + 300 \<le> now ?st
          else 100 \<le> now ?st)"
  proof (cases "0 < n")
    case True
    with inv nl obtain t where t: "settledAt ?st = Some t" "throws \<or> t + 300 \<le> now ?st"
      unfolding ready_inv_def by auto
    from settled_prefix[OF t(1)] obtain es1 es2 where
      "events = es1 @ es2" "unsettled (afterEffect throws n es1) = []"
      "now (afterEffect throws n es1) = t" by blast
    with t(2) True show ?thesis by auto
  next
    case False
    with inv nl have "100 \<le> now ?st" unfolding ready_inv_def by auto
    moreover have "unsettled (afterEffect throws n []) = []"
      using False by (simp add: afterEffect_def signalReadiness_def)
    moreover have "events = [] @ events" by simp
    ultimately show ?thesis using False by (metis (full_types))
  qed
next
  show "react throws st (ScriptError i) = react throws st (ScriptLoad i)"
    by (simp add: react_def)
next
  assume "injectScripts U valid \<lparr>appended = [], awaited = [], scriptsLoaded = loaded\<rparr> scripts = Some final
      \<and> list_all isHtmlScript scripts"
  then show "length (filter hasSrc (appended final)) = length (awaited final)"
    using injectScripts_awaited[of U valid "\<lparr>appended = [], awaited = [], scriptsLoaded = loaded\<rparr>" scripts final]
    by simp
qed

theorem readiness_signal_witness:
  "injectScripts sampleURL (\<lambda>k. True) \<lparr>appended = [], awaited = [], scriptsLoaded = []\<rparr> sampleScripts
     = Some \<lparr>appended =
               [Element ''SCRIPT'' [(''src'', ''/assets/alluredigital.net_wp-includes_js_jquery_jquery.min.js''),
                                    (''defer'', [])] [],
                Element ''SCRIPT'' [(''id'', ''menu-js'')] [Text ''document.body.classList.add(1)'']],
             awaited = [''https://alluredigital.net/wp-includes/js/jquery/jquery.min.js''],
             scriptsLoaded = [''https://alluredigital.net/wp-includes/js/jquery/jquery.min.js'',
                              ''document.body.classList.add(1)'']\<rparr> \<and>
   list_all isHtmlScript sampleScripts \<and>
   \<not> isLoading (afterEffect False 2
        [Elapse 40, ScriptLoad 0, Elapse 10, ScriptError 1, Elapse 300, TimerFires]) \<and>
   isLoading (afterEffect False 2
        [Elapse 40, ScriptLoad 0, Elapse 10, ScriptError 1, Elapse 299, TimerFires]) \<and>
   overlay (render True) \<and> opacity (render True) = 0 \<and>
   (\<exists>es1 es2. [Elapse 40, ScriptLoad 0, Elapse 10, ScriptError 1, Elapse 300, TimerFires] = es1 @ es2 \<and>
       unsettled (afterEffect False 2 es1) = [] \<and>
       now (afterEffect False 2 es1) + 300
         \<le> now (afterEffect False 2 [Elapse 40, ScriptLoad 0, Elapse 10, ScriptError 1, Elapse 300, TimerFires]))"
proof -
  let ?evs = "[Elapse 40, ScriptLoad 0, Elapse 10, ScriptError 1, Elapse 300, TimerFires]"
  have a: "\<not> isLoading (afterEffect False 2 ?evs)" by code_simp
  have b: "isLoading (afterEffect False 2 [Elapse 40, ScriptLoad 0, Elapse 10, ScriptError 1, Elapse 299, TimerFires])"
    by code_simp
  have c: "isLoading (afterEffect False 2 [])" by code_simp
  have d: "injectScripts sampleURL (\<lambda>k. True) \<lparr>appended = [], awaited = [], scriptsLoaded = []\<rparr> sampleScripts
     = Some \<lparr>appended =
               [Element ''SCRIPT'' [(''src'', ''/assets/alluredigital.net_wp-includes_js_jquery_jquery.min.js''),
                                    (''defer'', [])] [],
                Element ''SCRIPT'' [(''id'', ''menu-js'')] [Text ''document.body.classList.add(1)'']],
             awaited = [''https://alluredigital.net/wp-includes/js/jquery/jquery.min.js''],
             scriptsLoaded = [''https://alluredigital.net/wp-includes/js/jquery/jquery.min.js'',
                              ''document.body.classList.add(1)'']\<rparr>"
    by code_simp
  have e: "list_all isHtmlScript sampleScripts" by code_simp
  from readiness_signal[of "afterEffect False 2 []" False 2 ?evs 0 sampleURL "\<lambda>k. True" "[]" sampleScripts] a b c d e
  show ?thesis by simp
qed

theorem readiness_catch_counterexample:
  "\<not> isLoading (afterEffect True 1 [Elapse 40, ScriptLoad 0]) \<and>
   now (afterEffect True 1 [Elapse 40, ScriptLoad 0]) = 40 \<and>
   unsettled (afterEffect True 1 [Elapse 40]) = [0]"
  by code_simp

end
